theory Spec2Isabelle
  imports Main "HOL-Library.Word"
begin

section \<open>Python values\<close>

text \<open>
  The service moves JSON-like Python values around: what \<^verbatim>\<open>json.loads\<close> returns
  (\<^verbatim>\<open>None\<close>, booleans, integers, floats, strings, lists, dictionaries), the
  \<^verbatim>\<open>datetime.date\<close> values that the typed reports hold, and the typed report
  instances themselves. A float is kept as the 64 bits of its IEEE double; the model never
  computes with floats. A dictionary is the list of its items in insertion order; a key is
  looked up with \<open>map_of\<close>. A string is a list of characters, each character standing for
  the code point of the same number (so the model covers code points below 256).
\<close>

type_synonym pyfloat = "64 word"

datatype pyval =
    PNone
  | PBool bool
  | PInt int
  | PFloat pyfloat
  | PStr string
  | PDate nat nat nat
  | PList "pyval list"
  | PDict "(string \<times> pyval) list"
  | PModel "(string \<times> pyval) list"

text \<open>Python's truth value of an object, as \<^verbatim>\<open>if not structured_data\<close> tests it.\<close>

fun truthy :: "pyval \<Rightarrow> bool" where
  "truthy PNone = False"
| "truthy (PBool b) = b"
| "truthy (PInt i) = (i \<noteq> 0)"
| "truthy (PFloat x) = (x \<noteq> 0 \<and> x \<noteq> push_bit 63 1)"
| "truthy (PStr s) = (s \<noteq> [])"
| "truthy (PDate y m d) = True"
| "truthy (PList xs) = (xs \<noteq> [])"
| "truthy (PDict kvs) = (kvs \<noteq> [])"
| "truthy (PModel fs) = True"

section \<open>Strings: \<^verbatim>\<open>lower\<close>, \<^verbatim>\<open>endswith\<close>, \<^verbatim>\<open>strip\<close>\<close>

definition lower_char :: "char \<Rightarrow> char" where
  "lower_char c =
     (let n = (of_char c :: nat)
      in if (65 \<le> n \<and> n \<le> 90) \<or> (192 \<le> n \<and> n \<le> 222 \<and> n \<noteq> 215)
         then char_of (n + 32) else c)"

definition lower :: "string \<Rightarrow> string" where
  "lower s = map lower_char s"

definition endswith :: "string \<Rightarrow> string \<Rightarrow> bool" where
  "endswith s suffix =
     (length suffix \<le> length s \<and> drop (length s - length suffix) s = suffix)"

text \<open>The characters \<^verbatim>\<open>str.strip()\<close> removes: tab to carriage return, the four
  separators 28 to 31, the space, and NEL and the no-break space of Latin-1.\<close>

definition isspace :: "char \<Rightarrow> bool" where
  "isspace c =
     (let n = (of_char c :: nat)
      in (9 \<le> n \<and> n \<le> 13) \<or> (28 \<le> n \<and> n \<le> 32) \<or> n = 133 \<or> n = 160)"

definition strip :: "string \<Rightarrow> string" where
  "strip s = rev (dropWhile isspace (rev (dropWhile isspace s)))"

section \<open>Calendar dates\<close>

text \<open>
  A date field takes a string of the form \<^verbatim>\<open>YYYY-MM-DD\<close> that names a day of the
  calendar, and \<^verbatim>\<open>date.isoformat()\<close> writes a date back in that form.
\<close>

definition digit_of :: "char \<Rightarrow> nat option" where
  "digit_of c =
     (let n = (of_char c :: nat) in if 48 \<le> n \<and> n \<le> 57 then Some (n - 48) else None)"

fun number_of :: "nat \<Rightarrow> string \<Rightarrow> nat option" where
  "number_of acc [] = Some acc"
| "number_of acc (c # cs) =
     (case digit_of c of None \<Rightarrow> None | Some d \<Rightarrow> number_of (10 * acc + d) cs)"

definition is_leap :: "nat \<Rightarrow> bool" where
  "is_leap y = (y mod 4 = 0 \<and> (y mod 100 \<noteq> 0 \<or> y mod 400 = 0))"

definition days_in_month :: "nat \<Rightarrow> nat \<Rightarrow> nat" where
  "days_in_month y m =
     (if m = 2 then (if is_leap y then 29 else 28)
      else if m = 4 \<or> m = 6 \<or> m = 9 \<or> m = 11 then 30 else 31)"

definition parse_date :: "string \<Rightarrow> (nat \<times> nat \<times> nat) option" where
  "parse_date s =
     (if length s = 10 \<and> s ! 4 = CHR ''-'' \<and> s ! 7 = CHR ''-'' then
        (case (number_of 0 (take 4 s), number_of 0 (take 2 (drop 5 s)),
               number_of 0 (drop 8 s)) of
           (Some y, Some m, Some d) \<Rightarrow>
             if 1 \<le> y \<and> 1 \<le> m \<and> m \<le> 12 \<and> 1 \<le> d \<and> d \<le> days_in_month y m
             then Some (y, m, d) else None
         | _ \<Rightarrow> None)
      else None)"

definition digit_char :: "nat \<Rightarrow> char" where
  "digit_char n = char_of (48 + n mod 10)"

definition isoformat :: "nat \<Rightarrow> nat \<Rightarrow> nat \<Rightarrow> string" where
  "isoformat y m d =
     [digit_char (y div 1000), digit_char (y div 100), digit_char (y div 10), digit_char y]
     @ ''-'' @ [digit_char (m div 10), digit_char m]
     @ ''-'' @ [digit_char (d div 10), digit_char d]"

section \<open>The report schemas\<close>

text \<open>
  A pydantic model class is the list of its fields in the order of declaration. A field
  has a name, an annotation, and either no default (it is required: \<^verbatim>\<open>Field(...)\<close>)
  or a default value (\<^verbatim>\<open>Field(None)\<close>).
\<close>

datatype ftype =
    TStr
  | TBool
  | TInt
  | TFloat
  | TDate
  | TOptional ftype
  | TList ftype
  | TModel "(string \<times> ftype \<times> pyval option) list"

abbreviation (input) Field_required :: "pyval option" where
  "Field_required \<equiv> None"

abbreviation (input) Field_None :: "pyval option" where
  "Field_None \<equiv> Some PNone"

subsection \<open>\<^verbatim>\<open>ct_models.py\<close>\<close>

definition ct_Measurement :: ftype where
  "ct_Measurement = TModel
     [(''length'', TOptional TStr, Field_None),
      (''width'', TOptional TStr, Field_None),
      (''depth'', TOptional TStr, Field_None)]"

definition ct_Finding :: ftype where
  "ct_Finding = TModel
     [(''location'', TStr, Field_required),
      (''lobe'', TOptional TStr, Field_None),
      (''measurements'', ct_Measurement, Field_required),
      (''suv_max_value'', TOptional TFloat, Field_None),
      (''description'', TStr, Field_required),
      (''comparison'', TOptional TStr, Field_None)]"

definition OrganSystem :: ftype where
  "OrganSystem = TModel
     [(''organ'', TStr, Field_required),
      (''hypermetabolic_region'', TStr, Field_required),
      (''findings'', TList ct_Finding, Field_required)]"

definition PETCTReport :: ftype where
  "PETCTReport = TModel
     [(''patient_name'', TStr, Field_required),
      (''date_of_test'', TDate, Field_required),
      (''test_type'', TStr, Field_required),
      (''organ_systems'', TList OrganSystem, Field_required),
      (''other_abnormalities'', TOptional TStr, Field_None),
      (''impression'', TStr, Field_required),
      (''hospital_lab_name'', TStr, Field_required),
      (''hospital_lab_id'', TStr, Field_required)]"

definition Lesion :: ftype where
  "Lesion = TModel
     [(''site'', TStr, Field_required),
      (''max_length_cm'', TOptional TFloat, Field_None),
      (''width_cm'', TOptional TFloat, Field_None),
      (''depth_cm'', TOptional TFloat, Field_None),
      (''description'', TStr, Field_required)]"

definition CTScanReport :: ftype where
  "CTScanReport = TModel
     [(''patient_name'', TStr, Field_required),
      (''test_type'', TStr, Field_required),
      (''date_of_test'', TDate, Field_required),
      (''imaging_site'', TStr, Field_required),
      (''contrast_enhanced'', TBool, Field_required),
      (''new_lesion_evidence'', TBool, Field_required),
      (''lesions'', TList Lesion, Field_required),
      (''lymph_nodes_detected'', TOptional TInt, Field_None),
      (''impression'', TStr, Field_required),
      (''imaging_comments'', TOptional TStr, Field_None),
      (''hospital_name'', TOptional TStr, Field_None),
      (''hospital_location'', TOptional TStr, Field_None)]"

subsection \<open>\<^verbatim>\<open>mammo_models.py\<close>\<close>

definition mammo_Measurement :: ftype where
  "mammo_Measurement = TModel
     [(''length_mm'', TOptional TInt, Field_None),
      (''width_mm'', TOptional TInt, Field_None)]"

definition mammo_Finding :: ftype where
  "mammo_Finding = TModel
     [(''category'', TOptional TStr, Field_None),
      (''location'', TStr, Field_required),
      (''measurements'', TOptional mammo_Measurement, Field_None),
      (''shape'', TOptional TStr, Field_None),
      (''density'', TOptional TStr, Field_None),
      (''associated_calcifications'', TOptional TBool, Field_None),
      (''associated_features'', TList TStr, Field_required),
      (''calcifications'', TOptional TStr, Field_None),
      (''architectural_distortion'', TOptional TStr, Field_None),
      (''skin_lesion'', TOptional TStr, Field_None)]"

definition BreastComposition :: ftype where
  "BreastComposition = TModel
     [(''name'', TStr, Field_required),
      (''findings'', TList mammo_Finding, Field_required)]"

definition MammogramReport :: ftype where
  "MammogramReport = TModel
     [(''patient_name'', TStr, Field_required),
      (''test_type'', TStr, Field_required),
      (''date_of_test'', TDate, Field_required),
      (''reason_for_test'', TStr, Field_required),
      (''breast_composition'', TList BreastComposition, Field_required),
      (''birads_score'', TInt, Field_required),
      (''birads_composition_comments'', TStr, Field_required),
      (''impression'', TOptional TStr, Field_None),
      (''hospital_name'', TStr, Field_required),
      (''lab_technician'', TOptional TStr, Field_None)]"

datatype kind = CTScan | PETCT | Mammogram

fun report_model :: "kind \<Rightarrow> ftype" where
  "report_model CTScan = CTScanReport"
| "report_model PETCT = PETCTReport"
| "report_model Mammogram = MammogramReport"

section \<open>Constructing a typed report and dumping it\<close>

text \<open>
  What the validation library does with the schemas above. A value that already has the
  annotated type is taken as it is, and a \<^verbatim>\<open>YYYY-MM-DD\<close> string becomes a date. The
  library's further coercions of a value of another type (its lax mode: a numeric
  string or an integral float for an integer, an integer or a numeric string for a
  float, and so on) are a parameter \<open>L\<close> of the model, one conversion for each target
  type, so that a converted value has the type of the field; \<open>None\<close> says that the value
  is not convertible. The library converts nothing to a string. Every violation is
  reported with the path of the field it occurs at.
\<close>

datatype loc = Key string | Idx nat

datatype errtype = Missing | Invalid

type_synonym verr = "loc list \<times> errtype"

record lax =
  to_bool :: "pyval \<Rightarrow> bool option"
  to_int :: "pyval \<Rightarrow> int option"
  to_float :: "pyval \<Rightarrow> pyfloat option"
  to_date :: "pyval \<Rightarrow> (nat \<times> nat \<times> nat) option"

fun exact :: "ftype \<Rightarrow> pyval \<Rightarrow> pyval option" where
  "exact TStr v = (case v of PStr s \<Rightarrow> Some v | _ \<Rightarrow> None)"
| "exact TBool v = (case v of PBool b \<Rightarrow> Some v | _ \<Rightarrow> None)"
| "exact TInt v = (case v of PInt i \<Rightarrow> Some v | _ \<Rightarrow> None)"
| "exact TFloat v = (case v of PFloat x \<Rightarrow> Some v | _ \<Rightarrow> None)"
| "exact TDate v =
     (case v of
        PDate y m d \<Rightarrow> Some v
      | PStr s \<Rightarrow> (case parse_date s of None \<Rightarrow> None | Some (y, m, d) \<Rightarrow> Some (PDate y m d))
      | _ \<Rightarrow> None)"
| "exact (TOptional t) v = None"
| "exact (TList t) v = None"
| "exact (TModel fs) v = None"

fun convert :: "lax \<Rightarrow> ftype \<Rightarrow> pyval \<Rightarrow> pyval option" where
  "convert L TBool v = map_option PBool (to_bool L v)"
| "convert L TInt v = map_option PInt (to_int L v)"
| "convert L TFloat v = map_option PFloat (to_float L v)"
| "convert L TDate v = map_option (\<lambda>(y, m, d). PDate y m d) (to_date L v)"
| "convert L TStr v = None"
| "convert L (TOptional t) v = None"
| "convert L (TList t) v = None"
| "convert L (TModel fs) v = None"

text \<open>The coercion of a value to a scalar type: the value itself when it has the type,
  and else what the library converts it to.\<close>

definition coerce :: "lax \<Rightarrow> ftype \<Rightarrow> pyval \<Rightarrow> pyval option" where
  "coerce L t v = (case exact t v of Some r \<Rightarrow> Some r | None \<Rightarrow> convert L t v)"

definition scalar :: "lax \<Rightarrow> ftype \<Rightarrow> pyval \<Rightarrow> verr list + pyval" where
  "scalar L t v = (case coerce L t v of Some r \<Rightarrow> Inr r | None \<Rightarrow> Inl [([], Invalid)])"

definition under :: "loc \<Rightarrow> verr \<Rightarrow> verr" where
  "under l e = (l # fst e, snd e)"

fun collect_items :: "nat \<Rightarrow> (verr list + pyval) list \<Rightarrow> verr list \<times> pyval list" where
  "collect_items i [] = ([], [])"
| "collect_items i (r # rs) =
     (let (es, vs) = collect_items (Suc i) rs
      in case r of
           Inl e \<Rightarrow> (map (under (Idx i)) e @ es, vs)
         | Inr v \<Rightarrow> (es, v # vs))"

fun collect_fields ::
  "(string \<times> pyval) list \<Rightarrow> (string \<times> (pyval \<Rightarrow> verr list + pyval) \<times> pyval option) list
     \<Rightarrow> verr list \<times> (string \<times> pyval) list" where
  "collect_fields kvs [] = ([], [])"
| "collect_fields kvs ((n, vld, dflt) # fs) =
     (let (es, out) = collect_fields kvs fs
      in case map_of kvs n of
           None \<Rightarrow>
             (case dflt of
                None \<Rightarrow> (([Key n], Missing) # es, out)
              | Some d \<Rightarrow> (es, (n, d) # out))
         | Some v \<Rightarrow>
             (case vld v of
                Inl e \<Rightarrow> (map (under (Key n)) e @ es, out)
              | Inr v' \<Rightarrow> (es, (n, v') # out)))"

primrec validate :: "lax \<Rightarrow> ftype \<Rightarrow> pyval \<Rightarrow> verr list + pyval" where
  "validate L TStr = scalar L TStr"
| "validate L TBool = scalar L TBool"
| "validate L TInt = scalar L TInt"
| "validate L TFloat = scalar L TFloat"
| "validate L TDate = scalar L TDate"
| "validate L (TOptional t) = (\<lambda>v. if v = PNone then Inr PNone else validate L t v)"
| "validate L (TList t) =
     (\<lambda>v. case v of
            PList xs \<Rightarrow>
              (let (es, vs) = collect_items 0 (map (validate L t) xs)
               in if es = [] then Inr (PList vs) else Inl es)
          | _ \<Rightarrow> Inl [([], Invalid)])"
| "validate L (TModel fs) =
     (\<lambda>v. case v of
            PDict kvs \<Rightarrow>
              (let (es, out) =
                 collect_fields kvs (map (map_prod id (map_prod (validate L) id)) fs)
               in if es = [] then Inr (PModel out) else Inl es)
          | _ \<Rightarrow> Inl [([], Invalid)])"

text \<open>\<^verbatim>\<open>model_dump()\<close>: a typed instance becomes a dictionary again, at every depth;
  dates stay dates.\<close>

primrec model_dump :: "pyval \<Rightarrow> pyval" where
  "model_dump PNone = PNone"
| "model_dump (PBool b) = PBool b"
| "model_dump (PInt i) = PInt i"
| "model_dump (PFloat x) = PFloat x"
| "model_dump (PStr s) = PStr s"
| "model_dump (PDate y m d) = PDate y m d"
| "model_dump (PList xs) = PList (map model_dump xs)"
| "model_dump (PDict kvs) = PDict (map (map_prod id model_dump) kvs)"
| "model_dump (PModel fs) = PDict (map (map_prod id model_dump) fs)"

text \<open>
  The encoding of a returned value as JSON. This is the web framework's work on the
  response, not a function of the repository: a date is written with
  \<^verbatim>\<open>isoformat()\<close>, and a float that is not finite (all eleven bits of its exponent
  set) is written as \<^verbatim>\<open>null\<close>.
\<close>

definition finite_float :: "pyfloat \<Rightarrow> bool" where
  "finite_float x = (take_bit 11 (drop_bit 52 x) \<noteq> (2047 :: pyfloat))"

primrec jsonable_encoder :: "pyval \<Rightarrow> pyval" where
  "jsonable_encoder PNone = PNone"
| "jsonable_encoder (PBool b) = PBool b"
| "jsonable_encoder (PInt i) = PInt i"
| "jsonable_encoder (PFloat x) = (if finite_float x then PFloat x else PNone)"
| "jsonable_encoder (PStr s) = PStr s"
| "jsonable_encoder (PDate y m d) = PStr (isoformat y m d)"
| "jsonable_encoder (PList xs) = PList (map jsonable_encoder xs)"
| "jsonable_encoder (PDict kvs) = PDict (map (map_prod id jsonable_encoder) kvs)"
| "jsonable_encoder (PModel fs) = PDict (map (map_prod id jsonable_encoder) fs)"

section \<open>Exceptions, the environment and the state\<close>

text \<open>
  An exception that an external call or a library raises is a value. \<open>Exn\<close> carries the
  text that \<^verbatim>\<open>str(e)\<close> gives; the text of the two library errors is a parameter of the
  environment. No callee raises \<^verbatim>\<open>HTTPException\<close>: that class belongs to the web
  framework, and only the handlers raise it.
\<close>

datatype exn =
    Exn string
  | ValidationError "verr list"
  | NotAMapping

datatype http_exception = HTTPException nat string

datatype raised = Http http_exception | Other exn

datatype mistral = Mistral string

datatype markdown_converter = MarkdownConverter string

text \<open>
  Everything outside the four source files is a parameter: the process environment, the
  two client constructors, the temporary file, the upload, the conversion of
  \<^verbatim>\<open>pdf_to_markdown\<close>, the generation service, \<^verbatim>\<open>json.loads\<close>, the lax conversions
  of the validation library, standard output (a \<^verbatim>\<open>print\<close> raises when the stream
  cannot take the line), the clock, and float subtraction. The prompt sent to the
  service is determined by the report kind and the markdown text, so the service's
  answer is a function of these two; the answer is the list of the contents of its
  choices.
\<close>

datatype printed = Starting kind | Completed kind

record env =
  environ_api_key :: "string option"
  Mistral_init :: "string \<Rightarrow> exn option"
  MarkdownConverter_init :: "string \<Rightarrow> exn option"
  NamedTemporaryFile :: "exn + string"
  file_read :: "exn + string"
  temp_file_write :: "string \<Rightarrow> exn option"
  os_remove :: "string \<Rightarrow> exn option"
  pdf_to_markdown_text :: "string \<Rightarrow> markdown_converter \<Rightarrow> exn + string"
  chat_complete :: "mistral \<Rightarrow> kind \<Rightarrow> string \<Rightarrow> exn + string option list"
  json_loads :: "string \<Rightarrow> exn + pyval"
  print :: "printed \<Rightarrow> exn option"
  lax_conversion :: lax
  library_text :: "exn \<Rightarrow> string"
  time_start :: pyfloat
  time_end :: pyfloat
  float_sub :: "pyfloat \<Rightarrow> pyfloat \<Rightarrow> pyfloat"

definition str_exn :: "env \<Rightarrow> exn \<Rightarrow> string" where
  "str_exn E e = (case e of Exn m \<Rightarrow> m | _ \<Rightarrow> library_text E e)"

datatype level = INFO | WARNING | ERROR

datatype logline =
    Processing kind string nat
  | Successfully_processed string pyfloat
  | Validation_warning kind exn
  | Error_processing kind string exn
  | Empty_response
  | Failed_to_get kind exn
  | Health_check_failed exn
  | Cleaned_up string
  | Failed_to_cleanup string exn

datatype call =
    Call_get_mistral_client
  | Call_get_converter
  | Call_pdf_to_markdown_text string
  | Call_get_json kind string
  | Call_chat_complete kind string

text \<open>
  The state: the two module-level singletons, the temporary files on disk, the background
  tasks of the request (each the path that \<^verbatim>\<open>cleanup_temp_file\<close> is to remove), the
  calls made so far, and the log.
\<close>

record state =
  mistral_client :: "mistral option"
  converter :: "markdown_converter option"
  files :: "string set"
  background_tasks :: "string list"
  calls :: "call list"
  logged :: "(level \<times> logline) list"

definition logging :: "level \<Rightarrow> logline \<Rightarrow> state \<Rightarrow> state" where
  "logging l m s = s\<lparr>logged := logged s @ [(l, m)]\<rparr>"

definition called :: "call \<Rightarrow> state \<Rightarrow> state" where
  "called c s = s\<lparr>calls := calls s @ [c]\<rparr>"

definition add_task :: "string \<Rightarrow> state \<Rightarrow> state" where
  "add_task path s = s\<lparr>background_tasks := background_tasks s @ [path]\<rparr>"

section \<open>\<^verbatim>\<open>md_to_json.py\<close>\<close>

definition get_mistral_client :: "env \<Rightarrow> state \<Rightarrow> (exn + mistral) \<times> state" where
  "get_mistral_client E s0 =
     (let s = called Call_get_mistral_client s0
      in case mistral_client s of
           Some c \<Rightarrow> (Inr c, s)
         | None \<Rightarrow>
             (case environ_api_key E of
                None \<Rightarrow> (Inl (Exn ''MISTRAL_API_KEY environment variable not set.''), s)
              | Some api_key \<Rightarrow>
                  if api_key = []
                  then (Inl (Exn ''MISTRAL_API_KEY environment variable not set.''), s)
                  else (case Mistral_init E api_key of
                          Some e \<Rightarrow> (Inl e, s)
                        | None \<Rightarrow>
                            (Inr (Mistral api_key),
                             s\<lparr>mistral_client := Some (Mistral api_key)\<rparr>))))"

text \<open>
  The three extraction functions have the same body, up to the prompt and the words of
  the lines they print and log. The client is obtained before the \<^verbatim>\<open>try\<close> block; the
  two prints, the request, the reading of the first choice and the parsing are inside
  it, so an exception of any of them is logged and gives the empty mapping. The elapsed
  time in the lines and the tracing decorator are left out: they do not change what is
  returned.
\<close>

definition extract_json :: "kind \<Rightarrow> env \<Rightarrow> string \<Rightarrow> state \<Rightarrow> (exn + pyval) \<times> state" where
  "extract_json k E markdown_text s0 =
     (case get_mistral_client E (called (Call_get_json k markdown_text) s0) of
        (Inl e, s1) \<Rightarrow> (Inl e, s1)
      | (Inr client, s1) \<Rightarrow>
          (case print E (Starting k) of
             Some e \<Rightarrow> (Inr (PDict []), logging ERROR (Failed_to_get k e) s1)
           | None \<Rightarrow>
               (let s2 = called (Call_chat_complete k markdown_text) s1
                in case chat_complete E client k markdown_text of
                     Inl e \<Rightarrow> (Inr (PDict []), logging ERROR (Failed_to_get k e) s2)
                   | Inr choices \<Rightarrow>
                       (case choices of
                          [] \<Rightarrow>
                            (Inr (PDict []),
                             logging ERROR
                               (Failed_to_get k (Exn ''list index out of range'')) s2)
                        | response_content # _ \<Rightarrow>
                            (case response_content of
                               None \<Rightarrow> (Inr (PDict []), logging ERROR Empty_response s2)
                             | Some text \<Rightarrow>
                                 if text = []
                                 then (Inr (PDict []), logging ERROR Empty_response s2)
                                 else (case json_loads E text of
                                         Inl e \<Rightarrow>
                                           (Inr (PDict []),
                                            logging ERROR (Failed_to_get k e) s2)
                                       | Inr result \<Rightarrow>
                                           (case print E (Completed k) of
                                              Some e \<Rightarrow>
                                                (Inr (PDict []),
                                                 logging ERROR (Failed_to_get k e) s2)
                                            | None \<Rightarrow> (Inr result, s2))))))))"

definition get_ctscan_json :: "env \<Rightarrow> string \<Rightarrow> state \<Rightarrow> (exn + pyval) \<times> state" where
  "get_ctscan_json = extract_json CTScan"

definition get_petct_json :: "env \<Rightarrow> string \<Rightarrow> state \<Rightarrow> (exn + pyval) \<times> state" where
  "get_petct_json = extract_json PETCT"

definition get_mammogram_json :: "env \<Rightarrow> string \<Rightarrow> state \<Rightarrow> (exn + pyval) \<times> state" where
  "get_mammogram_json = extract_json Mammogram"

fun get_json :: "kind \<Rightarrow> env \<Rightarrow> string \<Rightarrow> state \<Rightarrow> (exn + pyval) \<times> state" where
  "get_json CTScan = get_ctscan_json"
| "get_json PETCT = get_petct_json"
| "get_json Mammogram = get_mammogram_json"

section \<open>\<^verbatim>\<open>app.py\<close>\<close>

record response =
  success :: bool
  message :: string
  data :: "(string \<times> pyval) list option"
  processing_time :: "pyfloat option"

record health_response =
  status :: string
  mistral_api_configured :: bool

text \<open>The three response classes have the same fields; \<open>data\<close> is declared
  \<^verbatim>\<open>Optional[dict]\<close>, so the constructor refuses any other value.\<close>

definition Response :: "bool \<Rightarrow> string \<Rightarrow> pyval \<Rightarrow> pyfloat \<Rightarrow> exn + response" where
  "Response ok msg d t =
     (case d of
        PDict kvs \<Rightarrow>
          Inr \<lparr>success = ok, message = msg, data = Some kvs, processing_time = Some t\<rparr>
      | PNone \<Rightarrow> Inr \<lparr>success = ok, message = msg, data = None, processing_time = Some t\<rparr>
      | _ \<Rightarrow> Inl (ValidationError [([Key ''data''], Invalid)]))"

definition get_converter :: "env \<Rightarrow> state \<Rightarrow> (exn + markdown_converter) \<times> state" where
  "get_converter E s0 =
     (let s = called Call_get_converter s0
      in case converter s of
           Some c \<Rightarrow> (Inr c, s)
         | None \<Rightarrow>
             (case environ_api_key E of
                None \<Rightarrow> (Inl (Exn ''MISTRAL_API_KEY environment variable not set.''), s)
              | Some api_key \<Rightarrow>
                  if api_key = []
                  then (Inl (Exn ''MISTRAL_API_KEY environment variable not set.''), s)
                  else (case MarkdownConverter_init E api_key of
                          Some e \<Rightarrow> (Inl e, s)
                        | None \<Rightarrow>
                            (Inr (MarkdownConverter api_key),
                             s\<lparr>converter := Some (MarkdownConverter api_key)\<rparr>))))"

definition cleanup_temp_file :: "env \<Rightarrow> string \<Rightarrow> state \<Rightarrow> state" where
  "cleanup_temp_file E file_path s =
     (if file_path \<in> files s then
        (case os_remove E file_path of
           None \<Rightarrow> logging INFO (Cleaned_up file_path) (s\<lparr>files := files s - {file_path}\<rparr>)
         | Some e \<Rightarrow> logging ERROR (Failed_to_cleanup file_path e) s)
      else s)"

definition health_check :: "env \<Rightarrow> state \<Rightarrow> (http_exception + health_response) \<times> state" where
  "health_check E s =
     (let mistral_configured = (case environ_api_key E of None \<Rightarrow> False | Some k \<Rightarrow> k \<noteq> []);
          unhealthy = (\<lambda>e s'. (Inl (HTTPException 500 (''Service unhealthy: '' @ str_exn E e)),
                               logging ERROR (Health_check_failed e) s'))
      in if mistral_configured then
           (case get_mistral_client E s of
              (Inl e, s1) \<Rightarrow> unhealthy e s1
            | (Inr client, s1) \<Rightarrow>
                (case get_converter E s1 of
                   (Inl e, s2) \<Rightarrow> unhealthy e s2
                 | (Inr conv, s2) \<Rightarrow>
                     (Inr \<lparr>status = ''healthy'', mistral_api_configured = True\<rparr>, s2)))
         else (Inr \<lparr>status = ''healthy'', mistral_api_configured = False\<rparr>, s))"

text \<open>
  The three report handlers have the same body, up to the extraction function, the
  report class and the words of the messages. The body of the \<^verbatim>\<open>try\<close> block is
  given in the order of its steps: the upload is saved, the document is converted, the
  data are extracted, the data are validated, the response is built.
\<close>

record upload =
  filename :: "string option"

text \<open>How an f-string writes \<^verbatim>\<open>file.filename\<close>.\<close>

definition filename_text :: "upload \<Rightarrow> string" where
  "filename_text file = (case filename file of None \<Rightarrow> ''None'' | Some n \<Rightarrow> n)"

fun label :: "kind \<Rightarrow> string" where
  "label CTScan = ''CT Scan''"
| "label PETCT = ''PETCT''"
| "label Mammogram = ''Mammogram''"

definition rejects_filename :: "string option \<Rightarrow> bool" where
  "rejects_filename fn =
     (case fn of None \<Rightarrow> True | Some n \<Rightarrow> n = [] \<or> \<not> endswith (lower n) ''.pdf'')"

text \<open>\<^verbatim>\<open>Report(**structured_data)\<close>: the argument of \<^verbatim>\<open>**\<close> must be a mapping.\<close>

definition construct :: "lax \<Rightarrow> ftype \<Rightarrow> pyval \<Rightarrow> exn + pyval" where
  "construct L cls structured_data =
     (case structured_data of
        PDict kvs \<Rightarrow>
          (case validate L cls structured_data of
             Inl es \<Rightarrow> Inl (ValidationError es)
           | Inr report \<Rightarrow> Inr report)
      | _ \<Rightarrow> Inl NotAMapping)"

text \<open>Lines 117 to 125: the check of the file name and the temporary copy of the upload.
  The second component is the value of \<^verbatim>\<open>temp_file_path\<close>.\<close>

definition saved ::
  "kind \<Rightarrow> env \<Rightarrow> upload \<Rightarrow> state \<Rightarrow> (raised + string) \<times> string option \<times> state" where
  "saved k E file s =
     (if rejects_filename (filename file) then
        (Inl (Http (HTTPException 400 ''Only PDF files are supported'')), None, s)
      else
        (case NamedTemporaryFile E of
           Inl e \<Rightarrow> (Inl (Other e), None, s)
         | Inr temp_file_path \<Rightarrow>
             (let s1 = s\<lparr>files := insert temp_file_path (files s)\<rparr>
              in case file_read E of
                   Inl e \<Rightarrow> (Inl (Other e), Some temp_file_path, s1)
                 | Inr content \<Rightarrow>
                     (case temp_file_write E content of
                        Some e \<Rightarrow> (Inl (Other e), Some temp_file_path, s1)
                      | None \<Rightarrow>
                          (Inr temp_file_path, Some temp_file_path,
                           logging INFO (Processing k (filename_text file) (length content))
                             s1)))))"

text \<open>Lines 127 and 128: the converter and the conversion to markdown.\<close>

definition converted ::
  "kind \<Rightarrow> env \<Rightarrow> upload \<Rightarrow> state \<Rightarrow> (raised + string \<times> string) \<times> string option \<times> state" where
  "converted k E file s =
     (case saved k E file s of
        (Inl r, temp_file_path, s1) \<Rightarrow> (Inl r, temp_file_path, s1)
      | (Inr path, temp_file_path, s1) \<Rightarrow>
          (case get_converter E s1 of
             (Inl e, s2) \<Rightarrow> (Inl (Other e), temp_file_path, s2)
           | (Inr conv, s2) \<Rightarrow>
               (let s3 = called (Call_pdf_to_markdown_text path) s2
                in case pdf_to_markdown_text E path conv of
                     Inl e \<Rightarrow> (Inl (Other e), temp_file_path, s3)
                   | Inr markdown_text \<Rightarrow> (Inr (path, markdown_text), temp_file_path, s3))))"

text \<open>Lines 130 to 133: the check of the markdown text and the extraction.\<close>

definition extracted ::
  "kind \<Rightarrow> env \<Rightarrow> upload \<Rightarrow> state \<Rightarrow> (raised + string \<times> pyval) \<times> string option \<times> state" where
  "extracted k E file s =
     (case converted k E file s of
        (Inl r, temp_file_path, s1) \<Rightarrow> (Inl r, temp_file_path, s1)
      | (Inr (path, markdown_text), temp_file_path, s1) \<Rightarrow>
          if strip markdown_text = [] then
            (Inl (Http (HTTPException 400 ''Failed to extract text from PDF'')),
             temp_file_path, s1)
          else
            (case get_json k E markdown_text s1 of
               (Inl e, s2) \<Rightarrow> (Inl (Other e), temp_file_path, s2)
             | (Inr structured_data, s2) \<Rightarrow> (Inr (path, structured_data), temp_file_path, s2)))"

text \<open>Lines 138 to 143: the typed report and its dump, or the data as they were
  extracted.\<close>

definition validate_or_passthrough :: "kind \<Rightarrow> env \<Rightarrow> pyval \<Rightarrow> state \<Rightarrow> pyval \<times> state" where
  "validate_or_passthrough k E structured_data s =
     (case construct (lax_conversion E) (report_model k) structured_data of
        Inr report \<Rightarrow> (model_dump report, s)
      | Inl validation_error \<Rightarrow>
          (structured_data, logging WARNING (Validation_warning k validation_error) s))"

text \<open>The whole \<^verbatim>\<open>try\<close> block, lines 117 to 155: its outcome, the value of
  \<^verbatim>\<open>temp_file_path\<close> when it is left, and the state.\<close>

definition try_block ::
  "kind \<Rightarrow> env \<Rightarrow> upload \<Rightarrow> state \<Rightarrow> (raised + response) \<times> string option \<times> state" where
  "try_block k E file s =
     (case extracted k E file s of
        (Inl r, temp_file_path, s1) \<Rightarrow> (Inl r, temp_file_path, s1)
      | (Inr (path, structured_data), temp_file_path, s1) \<Rightarrow>
          if \<not> truthy structured_data then
            (Inl (Http (HTTPException 400 ''Failed to extract structured data from document'')),
             temp_file_path, s1)
          else
            (let (validated_data, s2) = validate_or_passthrough k E structured_data s1;
                 elapsed = float_sub E (time_end E) (time_start E);
                 s3 = logging INFO (Successfully_processed (filename_text file) elapsed) s2;
                 s4 = add_task path s3
             in case Response True
                       (''Successfully processed '' @ label k @ '' report: ''
                          @ filename_text file)
                       validated_data elapsed of
                  Inl e \<Rightarrow> (Inl (Other e), temp_file_path, s4)
                | Inr r \<Rightarrow> (Inr r, temp_file_path, s4)))"

text \<open>The handler: \<^verbatim>\<open>except HTTPException: raise\<close>, then \<^verbatim>\<open>except Exception\<close>.\<close>

definition process_report ::
  "kind \<Rightarrow> env \<Rightarrow> upload \<Rightarrow> state \<Rightarrow> (http_exception + response) \<times> state" where
  "process_report k E file s =
     (case try_block k E file s of
        (Inr r, temp_file_path, s') \<Rightarrow> (Inr r, s')
      | (Inl (Http h), temp_file_path, s') \<Rightarrow> (Inl h, s')
      | (Inl (Other e), temp_file_path, s') \<Rightarrow>
          (let s1 = logging ERROR (Error_processing k (filename_text file) e) s';
               s2 = (case temp_file_path of
                       None \<Rightarrow> s1
                     | Some path \<Rightarrow> if path \<noteq> [] then add_task path s1 else s1)
           in (Inl (HTTPException 500 (''Internal server error: '' @ str_exn E e)), s2)))"

definition process_ctscan_report ::
  "env \<Rightarrow> upload \<Rightarrow> state \<Rightarrow> (http_exception + response) \<times> state" where
  "process_ctscan_report = process_report CTScan"

definition process_petct_report ::
  "env \<Rightarrow> upload \<Rightarrow> state \<Rightarrow> (http_exception + response) \<times> state" where
  "process_petct_report = process_report PETCT"

definition process_mammogram_report ::
  "env \<Rightarrow> upload \<Rightarrow> state \<Rightarrow> (http_exception + response) \<times> state" where
  "process_mammogram_report = process_report Mammogram"

fun endpoint ::
  "kind \<Rightarrow> env \<Rightarrow> upload \<Rightarrow> state \<Rightarrow> (http_exception + response) \<times> state" where
  "endpoint CTScan = process_ctscan_report"
| "endpoint PETCT = process_petct_report"
| "endpoint Mammogram = process_mammogram_report"

section \<open>What a round trip through a typed report is expected to give\<close>

text \<open>
  A value is acceptable for an annotation when it has the annotated type or the schema's
  coercion converts it to that type (a \<^verbatim>\<open>YYYY-MM-DD\<close> string for a date, and what the
  library converts besides); for an optional annotation \<^verbatim>\<open>None\<close> is acceptable too; a
  list is acceptable when its items are; and a mapping is acceptable when every field of
  the schema that it supplies has an acceptable value and it supplies every required
  field. Keys that are not fields of the schema do not matter.
\<close>

primrec acceptable :: "lax \<Rightarrow> ftype \<Rightarrow> pyval \<Rightarrow> bool" where
  "acceptable L TStr = (\<lambda>v. coerce L TStr v \<noteq> None)"
| "acceptable L TBool = (\<lambda>v. coerce L TBool v \<noteq> None)"
| "acceptable L TInt = (\<lambda>v. coerce L TInt v \<noteq> None)"
| "acceptable L TFloat = (\<lambda>v. coerce L TFloat v \<noteq> None)"
| "acceptable L TDate = (\<lambda>v. coerce L TDate v \<noteq> None)"
| "acceptable L (TOptional t) = (\<lambda>v. v = PNone \<or> acceptable L t v)"
| "acceptable L (TList t) =
     (\<lambda>v. case v of PList xs \<Rightarrow> list_all (acceptable L t) xs | _ \<Rightarrow> False)"
| "acceptable L (TModel fs) =
     (\<lambda>v. case v of
            PDict kvs \<Rightarrow>
              list_all
                (\<lambda>(n, ok, dflt). case map_of kvs n of None \<Rightarrow> dflt \<noteq> None | Some x \<Rightarrow> ok x)
                (map (map_prod id (map_prod (acceptable L) id)) fs)
          | _ \<Rightarrow> False)"

text \<open>
  The weaker condition: the mapping supplies every required field of the schema with an
  acceptable value. Nothing is asked of the optional fields it supplies.
\<close>

definition supplies_required :: "lax \<Rightarrow> ftype \<Rightarrow> pyval \<Rightarrow> bool" where
  "supplies_required L cls input =
     (case (cls, input) of
        (TModel fs, PDict kvs) \<Rightarrow>
          list_all
            (\<lambda>(n, t, dflt).
               case dflt of
                 Some d \<Rightarrow> True
               | None \<Rightarrow> (case map_of kvs n of None \<Rightarrow> False | Some v \<Rightarrow> acceptable L t v))
            fs
      | _ \<Rightarrow> False)"

text \<open>
  The mapping an acceptable value is expected to come back as: a scalar coerced, a list
  item by item, and a mapping field by field of the schema, where a field that the
  mapping does not supply carries its default.
\<close>

primrec expected_dump :: "lax \<Rightarrow> ftype \<Rightarrow> pyval \<Rightarrow> pyval" where
  "expected_dump L TStr = (\<lambda>v. case coerce L TStr v of None \<Rightarrow> v | Some r \<Rightarrow> r)"
| "expected_dump L TBool = (\<lambda>v. case coerce L TBool v of None \<Rightarrow> v | Some r \<Rightarrow> r)"
| "expected_dump L TInt = (\<lambda>v. case coerce L TInt v of None \<Rightarrow> v | Some r \<Rightarrow> r)"
| "expected_dump L TFloat = (\<lambda>v. case coerce L TFloat v of None \<Rightarrow> v | Some r \<Rightarrow> r)"
| "expected_dump L TDate = (\<lambda>v. case coerce L TDate v of None \<Rightarrow> v | Some r \<Rightarrow> r)"
| "expected_dump L (TOptional t) = (\<lambda>v. if v = PNone then PNone else expected_dump L t v)"
| "expected_dump L (TList t) =
     (\<lambda>v. case v of PList xs \<Rightarrow> PList (map (expected_dump L t) xs) | _ \<Rightarrow> v)"
| "expected_dump L (TModel fs) =
     (\<lambda>v. case v of
            PDict kvs \<Rightarrow>
              PDict (map (\<lambda>(n, dump, dflt).
                            (n, case map_of kvs n of
                                  None \<Rightarrow> (case dflt of None \<Rightarrow> PNone | Some d \<Rightarrow> model_dump d)
                                | Some x \<Rightarrow> dump x))
                       (map (map_prod id (map_prod (expected_dump L) id)) fs))
          | _ \<Rightarrow> v)"

text \<open>A value that has the annotated scalar type already, so that no coercion applies
  to it.\<close>

fun has_declared_type :: "ftype \<Rightarrow> pyval \<Rightarrow> bool" where
  "has_declared_type TStr (PStr s) = True"
| "has_declared_type TBool (PBool b) = True"
| "has_declared_type TInt (PInt i) = True"
| "has_declared_type TFloat (PFloat x) = True"
| "has_declared_type TDate (PDate y m d) = True"
| "has_declared_type (TOptional t) v = (v = PNone \<or> has_declared_type t v)"
| "has_declared_type t v = False"

text \<open>The keys of a mapping, and the value at a key.\<close>

definition item :: "pyval \<Rightarrow> string \<Rightarrow> pyval option" where
  "item v key = (case v of PDict kvs \<Rightarrow> map_of kvs key | _ \<Rightarrow> None)"

definition keys_of :: "pyval \<Rightarrow> string set" where
  "keys_of v = (case v of PDict kvs \<Rightarrow> set (map fst kvs) | _ \<Rightarrow> {})"

text \<open>
  Two readings of ``the dump is the input''. In the first the dump has the keys of the input
  that are fields of the schema, and nothing else. In the second it has every field of
  the schema, and a field that the input does not supply is \<^verbatim>\<open>None\<close>. In both, a
  field that the input supplies carries the value expected for it; the second says in
  so many words that a value of the annotated scalar type comes back as it went in.
\<close>

definition unchanged_roundtrip :: "lax \<Rightarrow> ftype \<Rightarrow> pyval \<Rightarrow> pyval \<Rightarrow> bool" where
  "unchanged_roundtrip L cls input output =
     (case (cls, input, output) of
        (TModel fs, PDict kvs, PDict out) \<Rightarrow>
          keys_of output = keys_of input \<inter> set (map fst fs) \<and>
          (\<forall>(n, t, dflt) \<in> set fs. \<forall>v. map_of kvs n = Some v \<longrightarrow>
             map_of out n = Some (expected_dump L t v))
      | _ \<Rightarrow> False)"

definition defaulted_roundtrip :: "lax \<Rightarrow> ftype \<Rightarrow> pyval \<Rightarrow> pyval \<Rightarrow> bool" where
  "defaulted_roundtrip L cls input output =
     (case (cls, input, output) of
        (TModel fs, PDict kvs, PDict out) \<Rightarrow>
          map fst out = map fst fs \<and>
          (\<forall>(n, t, dflt) \<in> set fs.
             map_of out n =
               Some (case map_of kvs n of None \<Rightarrow> PNone | Some v \<Rightarrow> expected_dump L t v)) \<and>
          (\<forall>(n, t, dflt) \<in> set fs. \<forall>v. map_of kvs n = Some v \<and> has_declared_type t v \<longrightarrow>
             map_of out n = Some v)
      | _ \<Rightarrow> False)"

section \<open>Sample requests\<close>

definition minimal_ct_items :: "(string \<times> pyval) list" where
  "minimal_ct_items =
     [(''patient_name'', PStr ''Jane Doe''),
      (''test_type'', PStr ''CT''),
      (''date_of_test'', PStr ''2024-01-15''),
      (''imaging_site'', PStr ''Abdomen''),
      (''contrast_enhanced'', PBool True),
      (''new_lesion_evidence'', PBool False),
      (''lesions'', PList []),
      (''impression'', PStr ''No acute findings.''),
      (''hospital_name'', PStr ''General Hospital'')]"

definition minimal_ct :: pyval where
  "minimal_ct = PDict minimal_ct_items"

text \<open>The typed report built from it, as the list of its fields.\<close>

definition minimal_ct_fields :: "(string \<times> pyval) list" where
  "minimal_ct_fields =
     [(''patient_name'', PStr ''Jane Doe''),
      (''test_type'', PStr ''CT''),
      (''date_of_test'', PDate 2024 1 15),
      (''imaging_site'', PStr ''Abdomen''),
      (''contrast_enhanced'', PBool True),
      (''new_lesion_evidence'', PBool False),
      (''lesions'', PList []),
      (''lymph_nodes_detected'', PNone),
      (''impression'', PStr ''No acute findings.''),
      (''imaging_comments'', PNone),
      (''hospital_name'', PStr ''General Hospital''),
      (''hospital_location'', PNone)]"

definition minimal_ct_report :: pyval where
  "minimal_ct_report = PModel minimal_ct_fields"

text \<open>The minimal mapping with an optional field that is not a number.\<close>

definition many_nodes_ct :: pyval where
  "many_nodes_ct = PDict (minimal_ct_items @ [(''lymph_nodes_detected'', PStr ''many'')])"

text \<open>The minimal mapping with the optional field given as a numeric string, and a
  library that converts the string \<^verbatim>\<open>3\<close> to the integer.\<close>

definition three_nodes_items :: "(string \<times> pyval) list" where
  "three_nodes_items = minimal_ct_items @ [(''lymph_nodes_detected'', PStr ''3'')]"

definition numeric_strings :: lax where
  "numeric_strings =
     \<lparr>to_bool = (\<lambda>v. None),
      to_int = (\<lambda>v. if v = PStr ''3'' then Some 3 else None),
      to_float = (\<lambda>v. None),
      to_date = (\<lambda>v. None)\<rparr>"

text \<open>A mammogram extraction without the required \<^verbatim>\<open>birads_score\<close>.\<close>

definition partial_mammogram :: "(string \<times> pyval) list" where
  "partial_mammogram =
     [(''patient_name'', PStr ''Jane Doe''),
      (''test_type'', PStr ''Mammogram''),
      (''date_of_test'', PStr ''2024-01-15'')]"

text \<open>The validation library without its lax conversions.\<close>

definition strict :: lax where
  "strict =
     \<lparr>to_bool = (\<lambda>v. None), to_int = (\<lambda>v. None), to_float = (\<lambda>v. None),
      to_date = (\<lambda>v. None)\<rparr>"

text \<open>A run in which every external call succeeds and the service answers with the
  minimal CT-scan report.\<close>

definition sample_env :: env where
  "sample_env =
     \<lparr>environ_api_key = Some ''sk-test'',
      Mistral_init = (\<lambda>k. None),
      MarkdownConverter_init = (\<lambda>k. None),
      NamedTemporaryFile = Inr ''/tmp/tmpab12.pdf'',
      file_read = Inr ''%PDF-1.4'',
      temp_file_write = (\<lambda>c. None),
      os_remove = (\<lambda>p. None),
      pdf_to_markdown_text = (\<lambda>p c. Inr ''# CT report''),
      chat_complete = (\<lambda>c k md. Inr [Some ''{...}'']),
      json_loads = (\<lambda>t. Inr minimal_ct),
      print = (\<lambda>line. None),
      lax_conversion = strict,
      library_text = (\<lambda>e. ''1 validation error''),
      time_start = 0,
      time_end = 0,
      float_sub = (\<lambda>a b. a - b)\<rparr>"

definition sample_state :: state where
  "sample_state =
     \<lparr>mistral_client = None, converter = None, files = {}, background_tasks = [],
      calls = [], logged = []\<rparr>"

definition sample_upload :: upload where
  "sample_upload = \<lparr>filename = Some ''report.pdf''\<rparr>"

text \<open>The same run with a conversion that yields only white space, with a service whose
  answer parses to the empty mapping, with a conversion that fails, with a service that
  answers with the partial mammogram, and without the credential; and an upload that is
  not a PDF.\<close>

definition blank_env :: env where
  "blank_env = sample_env\<lparr>pdf_to_markdown_text := (\<lambda>p c. Inr [CHR '' '', CHR 0x0A])\<rparr>"

definition empty_env :: env where
  "empty_env = sample_env\<lparr>json_loads := (\<lambda>t. Inr (PDict []))\<rparr>"

definition failing_env :: env where
  "failing_env =
     sample_env\<lparr>pdf_to_markdown_text :=
                  (\<lambda>p c. Inl (Exn ''401 Unauthorized for key sk-test at api.mistral.ai''))\<rparr>"

definition partial_env :: env where
  "partial_env = sample_env\<lparr>json_loads := (\<lambda>t. Inr (PDict partial_mammogram))\<rparr>"

definition unconfigured_env :: env where
  "unconfigured_env = sample_env\<lparr>environ_api_key := None\<rparr>"

text \<open>For the health check: the credential set to the empty string, a credential that
  the client of the generation service refuses, and one that the converter refuses.\<close>

definition empty_key_env :: env where
  "empty_key_env = sample_env\<lparr>environ_api_key := Some []\<rparr>"

definition refused_key_env :: env where
  "refused_key_env = sample_env\<lparr>Mistral_init := (\<lambda>k. Some (Exn ''Invalid API key''))\<rparr>"

definition refused_converter_env :: env where
  "refused_converter_env =
     sample_env\<lparr>MarkdownConverter_init := (\<lambda>k. Some (Exn ''Invalid API key''))\<rparr>"

definition docx_upload :: upload where
  "docx_upload = \<lparr>filename = Some ''Scan.PDF.docx''\<rparr>"

section \<open>Basic facts\<close>

lemma endpoint_eq: "endpoint k = process_report k"
  by (cases k) (simp_all add: process_ctscan_report_def process_petct_report_def
      process_mammogram_report_def)

lemma get_json_eq: "get_json k = extract_json k"
  by (cases k) (simp_all add: get_ctscan_json_def get_petct_json_def get_mammogram_json_def)

text \<open>\<open>endswith\<close> is the suffix test, and \<open>strip\<close> leaves nothing exactly of the
  strings that consist of white space.\<close>

lemma endswith_iff: "endswith s suffix \<longleftrightarrow> (\<exists>p. s = p @ suffix)"
proof
  assume "endswith s suffix"
  then have "s = take (length s - length suffix) s @ suffix"
    by (metis append_take_drop_id endswith_def)
  then show "\<exists>p. s = p @ suffix" ..
next
  assume "\<exists>p. s = p @ suffix"
  then show "endswith s suffix"
    by (auto simp: endswith_def)
qed

lemma strip_empty_iff: "strip s = [] \<longleftrightarrow> (\<forall>c\<in>set s. isspace c)"
proof -
  have "(\<forall>c\<in>set (dropWhile isspace s). isspace c) \<longleftrightarrow> dropWhile isspace s = []"
  proof (cases "dropWhile isspace s")
    case Nil
    show ?thesis unfolding Nil by simp
  next
    case (Cons c cs)
    then have "\<not> isspace c"
      using hd_dropWhile [of isspace s] by simp
    with Cons show ?thesis by auto
  qed
  then have "strip s = [] \<longleftrightarrow> dropWhile isspace s = []"
    by (simp add: strip_def dropWhile_eq_Nil_conv)
  then show ?thesis
    by (simp add: dropWhile_eq_Nil_conv)
qed

lemmas sample_defs = sample_env_def sample_state_def sample_upload_def blank_env_def
  empty_env_def failing_env_def partial_env_def unconfigured_env_def docx_upload_def
  empty_key_env_def refused_key_env_def refused_converter_env_def

lemmas run_defs = process_ctscan_report_def process_petct_report_def
  process_mammogram_report_def process_report_def try_block_def extracted_def converted_def
  saved_def rejects_filename_def endswith_def lower_def lower_char_def get_converter_def
  get_ctscan_json_def get_petct_json_def get_mammogram_json_def extract_json_def
  get_mistral_client_def called_def logging_def add_task_def filename_text_def strip_def
  isspace_def str_exn_def

subsection \<open>The calls a request makes\<close>

lemma saved_calls: "saved k E file s = (r, tp, s1) \<Longrightarrow> calls s1 = calls s"
  by (auto simp: saved_def logging_def Let_def split: if_splits sum.splits option.splits)

lemma get_converter_calls:
  "get_converter E s = (r, s1) \<Longrightarrow> calls s1 = calls s @ [Call_get_converter]"
  by (auto simp: get_converter_def called_def Let_def split: if_splits option.splits)

lemma converted_calls:
  assumes "converted k E file s = (Inr (path, md), tp, s1)"
  shows "calls s1 = calls s @ [Call_get_converter, Call_pdf_to_markdown_text path]"
proof -
  obtain r0 tp0 s0 where sv: "saved k E file s = (r0, tp0, s0)"
    by (cases "saved k E file s") auto
  obtain c sc where gc: "get_converter E s0 = (c, sc)"
    by (cases "get_converter E s0") auto
  from assms sv gc have "s1 = called (Call_pdf_to_markdown_text path) sc"
    by (auto simp: converted_def Let_def split: sum.splits)
  with saved_calls [OF sv] get_converter_calls [OF gc] show ?thesis
    by (simp add: called_def)
qed

section \<open>The file name and the conversion\<close>

text \<open>
  Claim C5. An upload whose file name does not end in \<^verbatim>\<open>.pdf\<close>, compared without
  regard to case, is answered with status 400 by each of the three endpoints, and nothing
  else happens: the state is the one before the request, so neither the conversion nor the
  extraction has been called.
\<close>

theorem non_pdf_rejected:
  assumes "filename file = Some n" and "\<not> endswith (lower n) ''.pdf''"
  shows "endpoint k E file s = (Inl (HTTPException 400 ''Only PDF files are supported''), s)"
  using assms
  by (simp add: endpoint_eq process_report_def try_block_def extracted_def converted_def
      saved_def rejects_filename_def)

text \<open>An upload named \<^verbatim>\<open>Scan.PDF.docx\<close>, sent to the mammogram endpoint.\<close>

theorem non_pdf_rejected_witness:
  "filename docx_upload = Some ''Scan.PDF.docx''
   \<and> \<not> endswith (lower ''Scan.PDF.docx'') ''.pdf''
   \<and> endpoint Mammogram sample_env docx_upload sample_state =
        (Inl (HTTPException 400 ''Only PDF files are supported''), sample_state)"
proof -
  have h1: "filename docx_upload = Some ''Scan.PDF.docx''"
    by (simp add: docx_upload_def)
  have h2: "\<not> endswith (lower ''Scan.PDF.docx'') ''.pdf''"
    by (simp add: endswith_def lower_def lower_char_def)
  show ?thesis
    using h1 h2 non_pdf_rejected [OF h1 h2, of Mammogram sample_env sample_state] by simp
qed

text \<open>
  Claim C6. When the conversion yields a string that is empty or consists of white space,
  the endpoint answers with status 400 and the extraction is not called: the state is the
  one the conversion left, and the calls of the request are the call of the converter and
  the call of the conversion.
\<close>

theorem blank_conversion_rejected:
  assumes "converted k E file s = (Inr (path, md), tp, s1)" and "\<forall>c\<in>set md. isspace c"
  shows "endpoint k E file s =
           (Inl (HTTPException 400 ''Failed to extract text from PDF''), s1)
         \<and> calls s1 = calls s @ [Call_get_converter, Call_pdf_to_markdown_text path]"
proof -
  from assms(2) have "strip md = []"
    by (simp add: strip_empty_iff)
  with assms(1) have "endpoint k E file s =
      (Inl (HTTPException 400 ''Failed to extract text from PDF''), s1)"
    by (simp add: endpoint_eq process_report_def try_block_def extracted_def)
  with converted_calls [OF assms(1)] show ?thesis by simp
qed

text \<open>A conversion that yields a space and a line feed, at the PET-CT endpoint.\<close>

theorem blank_conversion_rejected_witness:
  "isspace CHR '' '' \<and> isspace (CHR 0x0A)
   \<and> fst (endpoint PETCT blank_env sample_upload sample_state) =
        Inl (HTTPException 400 ''Failed to extract text from PDF'')
   \<and> calls (snd (endpoint PETCT blank_env sample_upload sample_state)) =
        [Call_get_converter, Call_pdf_to_markdown_text ''/tmp/tmpab12.pdf'']"
proof -
  have h1: "converted PETCT blank_env sample_upload sample_state =
      (Inr (''/tmp/tmpab12.pdf'', [CHR '' '', CHR 0x0A]), Some ''/tmp/tmpab12.pdf'',
       snd (snd (converted PETCT blank_env sample_upload sample_state)))"
    by (simp add: sample_defs run_defs)
  have h2: "\<forall>c\<in>set [CHR '' '', CHR 0x0A]. isspace c"
    by (simp add: isspace_def)
  have "calls sample_state = []"
    by (simp add: sample_state_def)
  with h2 blank_conversion_rejected [OF h1 h2] show ?thesis by simp
qed

section \<open>Unexpected failures and the temporary file\<close>




text \<open>
  Claim C2. The claim asks for the cleanup of the temporary file to be scheduled once on
  every exit path. The handler schedules it on the success path and in the handler of
  unexpected exceptions, but \<^verbatim>\<open>except HTTPException: raise\<close> schedules nothing: when
  the conversion yields white space, or the extraction yields the empty mapping, the
  request ends with status 400, no background task, and the temporary file still on disk.
\<close>

theorem client_error_schedules_no_cleanup:
  "fst (process_ctscan_report blank_env sample_upload sample_state) =
      Inl (HTTPException 400 ''Failed to extract text from PDF'')
   \<and> background_tasks (snd (process_ctscan_report blank_env sample_upload sample_state)) = []
   \<and> ''/tmp/tmpab12.pdf''
        \<in> files (snd (process_ctscan_report blank_env sample_upload sample_state))
   \<and> fst (process_ctscan_report empty_env sample_upload sample_state) =
      Inl (HTTPException 400 ''Failed to extract structured data from document'')
   \<and> background_tasks (snd (process_ctscan_report empty_env sample_upload sample_state)) = []
   \<and> ''/tmp/tmpab12.pdf''
        \<in> files (snd (process_ctscan_report empty_env sample_upload sample_state))"
  by (simp add: sample_defs run_defs)

text \<open>The sibling paths do schedule it: once on success, once after an unexpected
  exception that follows the creation of the file.\<close>

lemma unexpected_exception_schedules_cleanup:
  assumes "try_block k E file s = (Inl (Other e), Some path, s1)" and "path \<noteq> []"
  shows "background_tasks (snd (endpoint k E file s)) = background_tasks s1 @ [path]"
  using assms by (simp add: endpoint_eq process_report_def logging_def add_task_def Let_def)

section \<open>The extraction and the health check\<close>

text \<open>
  Claim C3 as stated does not hold: the extraction can raise to its caller. The client is
  obtained before the \<^verbatim>\<open>try\<close> block, so without the credential (and with no client
  built earlier) the error of \<^verbatim>\<open>get_mistral_client\<close> leaves the function.
\<close>

theorem extraction_raises_without_credential:
  "fst (get_ctscan_json unconfigured_env ''# CT report'' sample_state) =
     Inl (Exn ''MISTRAL_API_KEY environment variable not set.'')"
  by (simp add: sample_defs get_ctscan_json_def extract_json_def get_mistral_client_def
      called_def)

text \<open>
  Claim C3, amended. When \<^verbatim>\<open>get_mistral_client\<close> raises, each of the three extraction
  functions raises that error to its caller. Once the client is obtained, the function
  returns, and what it returns is the empty mapping unless the service answered, the
  content of its first choice is a non-empty text, and that text parsed as JSON to the
  value returned (and both lines were printed). So a failure of the service, an answer
  without choices, an empty content and a parse failure all give the empty mapping.
\<close>

theorem extraction_result:
  "case get_mistral_client E (called (Call_get_json k md) s) of
     (Inl e, s1) \<Rightarrow> get_json k E md s = (Inl e, s1)
   | (Inr client, s1) \<Rightarrow>
       (\<exists>r s'. get_json k E md s = (Inr r, s') \<and>
          (r \<noteq> PDict [] \<longrightarrow>
             (\<exists>text rest. chat_complete E client k md = Inr (Some text # rest) \<and>
                text \<noteq> [] \<and> json_loads E text = Inr r \<and>
                print E (Starting k) = None \<and> print E (Completed k) = None)))"
  by (auto simp: get_json_eq extract_json_def Let_def
      split: prod.splits sum.splits list.splits option.splits)

text \<open>With the credential the CT-scan extraction returns; without it the PET-CT
  extraction raises.\<close>

theorem extraction_result_witness:
  "(\<exists>r s'. get_ctscan_json sample_env ''# CT report'' sample_state = (Inr r, s') \<and>
      (r \<noteq> PDict [] \<longrightarrow>
         (\<exists>text rest.
            chat_complete sample_env (Mistral ''sk-test'') CTScan ''# CT report'' =
              Inr (Some text # rest) \<and>
            text \<noteq> [] \<and> json_loads sample_env text = Inr r \<and>
            print sample_env (Starting CTScan) = None \<and>
            print sample_env (Completed CTScan) = None)))
   \<and> fst (get_petct_json unconfigured_env ''# PET-CT report'' sample_state) =
        Inl (Exn ''MISTRAL_API_KEY environment variable not set.'')"
proof -
  have h1: "fst (get_mistral_client sample_env
                   (called (Call_get_json CTScan ''# CT report'') sample_state)) =
              Inr (Mistral ''sk-test'')"
    by (simp add: sample_defs get_mistral_client_def called_def)
  have h2: "fst (get_mistral_client unconfigured_env
                   (called (Call_get_json PETCT ''# PET-CT report'') sample_state)) =
              Inl (Exn ''MISTRAL_API_KEY environment variable not set.'')"
    by (simp add: sample_defs get_mistral_client_def called_def)
  from h1 extraction_result [where E = sample_env and k = CTScan and md = "''# CT report''"
      and s = sample_state]
  have a: "\<exists>r s'. get_ctscan_json sample_env ''# CT report'' sample_state = (Inr r, s') \<and>
      (r \<noteq> PDict [] \<longrightarrow>
         (\<exists>text rest.
            chat_complete sample_env (Mistral ''sk-test'') CTScan ''# CT report'' =
              Inr (Some text # rest) \<and>
            text \<noteq> [] \<and> json_loads sample_env text = Inr r \<and>
            print sample_env (Starting CTScan) = None \<and>
            print sample_env (Completed CTScan) = None))"
    by (auto split: prod.splits sum.splits)
  from h2 extraction_result [where E = unconfigured_env and k = PETCT
      and md = "''# PET-CT report''" and s = sample_state]
  have b: "fst (get_petct_json unconfigured_env ''# PET-CT report'' sample_state) =
      Inl (Exn ''MISTRAL_API_KEY environment variable not set.'')"
    by (auto split: prod.splits sum.splits)
  from a b show ?thesis by blast
qed

text \<open>
  Claim C9 as stated does not hold for a credential that is set to the empty string: the
  variable is set, and the health check reports \<^verbatim>\<open>mistral_api_configured\<close> false
  without a call of \<^verbatim>\<open>get_mistral_client\<close> or \<^verbatim>\<open>get_converter\<close>; no client is
  built.
\<close>

theorem health_check_skips_empty_credential:
  "environ_api_key empty_key_env = Some []
   \<and> health_check empty_key_env sample_state =
        (Inr \<lparr>status = ''healthy'', mistral_api_configured = False\<rparr>, sample_state)
   \<and> calls sample_state = []
   \<and> mistral_client sample_state = None
   \<and> converter sample_state = None"
  by (simp add: sample_defs health_check_def)

text \<open>
  Claim C9, amended. When the credential is not set, or is set to the empty string, the
  health check returns (it does not raise) with \<^verbatim>\<open>mistral_api_configured\<close> false, and
  nothing is initialized. When the credential is set to a non-empty value, the health
  check first obtains the client of the generation service and then the converter, each
  constructed with the credential unless it was built before:
  \<^item> when the construction of the client fails, the health check raises status 500 with
    the text of that error, and the converter is not asked for;
  \<^item> when the construction of the converter fails, it raises status 500 with the text
    of that error;
  \<^item> otherwise it reports \<^verbatim>\<open>healthy\<close> with \<^verbatim>\<open>mistral_api_configured\<close> true, after
    both calls, and both singletons hold the clients.
\<close>

theorem health_check_configuration:
  "(environ_api_key E = None \<or> environ_api_key E = Some [] \<longrightarrow>
      health_check E s = (Inr \<lparr>status = ''healthy'', mistral_api_configured = False\<rparr>, s))
   \<and> (\<forall>key e. environ_api_key E = Some key \<and> key \<noteq> [] \<and>
          mistral_client s = None \<and> Mistral_init E key = Some e \<longrightarrow>
        health_check E s =
          (Inl (HTTPException 500 (''Service unhealthy: '' @ str_exn E e)),
           logging ERROR (Health_check_failed e) (called Call_get_mistral_client s)))
   \<and> (\<forall>key e. environ_api_key E = Some key \<and> key \<noteq> [] \<and>
          (mistral_client s \<noteq> None \<or> Mistral_init E key = None) \<and>
          converter s = None \<and> MarkdownConverter_init E key = Some e \<longrightarrow>
        fst (health_check E s) =
          Inl (HTTPException 500 (''Service unhealthy: '' @ str_exn E e)) \<and>
        calls (snd (health_check E s)) =
          calls s @ [Call_get_mistral_client, Call_get_converter] \<and>
        converter (snd (health_check E s)) = None)
   \<and> (\<forall>key. environ_api_key E = Some key \<and> key \<noteq> [] \<and>
          (mistral_client s \<noteq> None \<or> Mistral_init E key = None) \<and>
          (converter s \<noteq> None \<or> MarkdownConverter_init E key = None) \<longrightarrow>
        fst (health_check E s) =
          Inr \<lparr>status = ''healthy'', mistral_api_configured = True\<rparr> \<and>
        calls (snd (health_check E s)) =
          calls s @ [Call_get_mistral_client, Call_get_converter] \<and>
        mistral_client (snd (health_check E s)) =
          Some (case mistral_client s of None \<Rightarrow> Mistral key | Some c \<Rightarrow> c) \<and>
        converter (snd (health_check E s)) =
          Some (case converter s of None \<Rightarrow> MarkdownConverter key | Some c \<Rightarrow> c))"
  by (auto simp: health_check_def get_mistral_client_def get_converter_def called_def
      logging_def Let_def split: prod.splits sum.splits option.splits if_splits)

text \<open>The health check without the credential, with the empty credential, with a
  credential that the client or the converter refuses, and with a good one.\<close>

theorem health_check_configuration_witness:
  "environ_api_key unconfigured_env = None
   \<and> health_check unconfigured_env sample_state =
        (Inr \<lparr>status = ''healthy'', mistral_api_configured = False\<rparr>, sample_state)
   \<and> environ_api_key empty_key_env = Some []
   \<and> health_check empty_key_env sample_state =
        (Inr \<lparr>status = ''healthy'', mistral_api_configured = False\<rparr>, sample_state)
   \<and> Mistral_init refused_key_env ''sk-test'' = Some (Exn ''Invalid API key'')
   \<and> fst (health_check refused_key_env sample_state) =
        Inl (HTTPException 500 (''Service unhealthy: '' @ ''Invalid API key''))
   \<and> calls (snd (health_check refused_key_env sample_state)) = [Call_get_mistral_client]
   \<and> MarkdownConverter_init refused_converter_env ''sk-test'' = Some (Exn ''Invalid API key'')
   \<and> fst (health_check refused_converter_env sample_state) =
        Inl (HTTPException 500 (''Service unhealthy: '' @ ''Invalid API key''))
   \<and> environ_api_key sample_env = Some ''sk-test''
   \<and> fst (health_check sample_env sample_state) =
        Inr \<lparr>status = ''healthy'', mistral_api_configured = True\<rparr>
   \<and> calls (snd (health_check sample_env sample_state)) =
        [Call_get_mistral_client, Call_get_converter]
   \<and> mistral_client (snd (health_check sample_env sample_state)) = Some (Mistral ''sk-test'')
   \<and> converter (snd (health_check sample_env sample_state)) =
        Some (MarkdownConverter ''sk-test'')"
proof -
  have s0: "calls sample_state = []" "mistral_client sample_state = None"
    "converter sample_state = None"
    by (simp_all add: sample_state_def)
  have k1: "environ_api_key unconfigured_env = None"
    by (simp add: sample_defs)
  have k2: "environ_api_key empty_key_env = Some []"
    by (simp add: sample_defs)
  have k3: "environ_api_key refused_key_env = Some ''sk-test''"
    "Mistral_init refused_key_env ''sk-test'' = Some (Exn ''Invalid API key'')"
    by (simp_all add: sample_defs)
  have k4: "environ_api_key refused_converter_env = Some ''sk-test''"
    "Mistral_init refused_converter_env ''sk-test'' = None"
    "MarkdownConverter_init refused_converter_env ''sk-test'' = Some (Exn ''Invalid API key'')"
    by (simp_all add: sample_defs)
  have k5: "environ_api_key sample_env = Some ''sk-test''"
    "Mistral_init sample_env ''sk-test'' = None"
    "MarkdownConverter_init sample_env ''sk-test'' = None"
    by (simp_all add: sample_defs)
  have ne: "''sk-test'' \<noteq> []"
    by simp
  from health_check_configuration [of unconfigured_env sample_state] k1
  have a: "health_check unconfigured_env sample_state =
      (Inr \<lparr>status = ''healthy'', mistral_api_configured = False\<rparr>, sample_state)"
    by blast
  from health_check_configuration [of empty_key_env sample_state] k2
  have b: "health_check empty_key_env sample_state =
      (Inr \<lparr>status = ''healthy'', mistral_api_configured = False\<rparr>, sample_state)"
    by blast
  from health_check_configuration [of refused_key_env sample_state] k3 s0 ne
  have "health_check refused_key_env sample_state =
      (Inl (HTTPException 500
              (''Service unhealthy: '' @ str_exn refused_key_env (Exn ''Invalid API key''))),
       logging ERROR (Health_check_failed (Exn ''Invalid API key''))
         (called Call_get_mistral_client sample_state))"
    by blast
  with s0 have c: "fst (health_check refused_key_env sample_state) =
        Inl (HTTPException 500 (''Service unhealthy: '' @ ''Invalid API key''))"
      "calls (snd (health_check refused_key_env sample_state)) = [Call_get_mistral_client]"
    by (simp_all add: str_exn_def logging_def called_def)
  from health_check_configuration [of refused_converter_env sample_state] k4 s0 ne
  have "fst (health_check refused_converter_env sample_state) =
      Inl (HTTPException 500
             (''Service unhealthy: ''
                @ str_exn refused_converter_env (Exn ''Invalid API key'')))"
    by blast
  then have d: "fst (health_check refused_converter_env sample_state) =
      Inl (HTTPException 500 (''Service unhealthy: '' @ ''Invalid API key''))"
    by (simp add: str_exn_def)
  from health_check_configuration [of sample_env sample_state] k5 s0 ne
  have "fst (health_check sample_env sample_state) =
        Inr \<lparr>status = ''healthy'', mistral_api_configured = True\<rparr> \<and>
      calls (snd (health_check sample_env sample_state)) =
        calls sample_state @ [Call_get_mistral_client, Call_get_converter] \<and>
      mistral_client (snd (health_check sample_env sample_state)) =
        Some (case mistral_client sample_state of None \<Rightarrow> Mistral ''sk-test'' | Some c \<Rightarrow> c) \<and>
      converter (snd (health_check sample_env sample_state)) =
        Some (case converter sample_state of None \<Rightarrow> MarkdownConverter ''sk-test''
              | Some c \<Rightarrow> c)"
    by blast
  with s0 have e: "fst (health_check sample_env sample_state) =
        Inr \<lparr>status = ''healthy'', mistral_api_configured = True\<rparr>"
      "calls (snd (health_check sample_env sample_state)) =
        [Call_get_mistral_client, Call_get_converter]"
      "mistral_client (snd (health_check sample_env sample_state)) = Some (Mistral ''sk-test'')"
      "converter (snd (health_check sample_env sample_state)) =
        Some (MarkdownConverter ''sk-test'')"
    by simp_all
  from k1 a k2 b k3(2) c k4(3) d k5(1) e show ?thesis
    by simp
qed

section \<open>Validation\<close>

subsection \<open>What a successful validation returns\<close>

lemma validate_errors_nonempty: "validate L t v \<noteq> Inl []"
proof (induction t arbitrary: v)
  case (TOptional t)
  then show ?case by simp
next
  case (TList t)
  then show ?case by (cases v) (auto split: prod.splits)
next
  case (TModel fs)
  then show ?case by (cases v) (auto split: prod.splits)
qed (simp_all add: scalar_def split: option.splits)

lemma coerce_dump: "coerce L t v = Some r \<Longrightarrow> model_dump r = r"
  by (cases t; cases v) (auto simp: coerce_def split: option.splits)

lemma collect_fields_names:
  "collect_fields kvs fvs = ([], out) \<Longrightarrow> \<forall>(n, vld, dflt)\<in>set fvs. \<forall>x. vld x \<noteq> Inl [] \<Longrightarrow>
     map fst out = map fst fvs"
proof (induction fvs arbitrary: out)
  case Nil
  then show ?case by simp
next
  case (Cons f fvs)
  obtain n vld dflt where f: "f = (n, vld, dflt)"
    by (cases f) auto
  obtain es out' where rest: "collect_fields kvs fvs = (es, out')"
    by (cases "collect_fields kvs fvs") auto
  from Cons.prems(2) f have ne: "\<And>x. vld x \<noteq> Inl []"
    by simp
  from Cons.prems(1) f rest ne have "es = [] \<and> (\<exists>v. out = (n, v) # out')"
    by (auto split: option.splits sum.splits)
  then obtain v where "es = []" and out: "out = (n, v) # out'"
    by blast
  with Cons.IH [of out'] rest Cons.prems(2) have "map fst out' = map fst fvs"
    by simp
  with out f show ?case by simp
qed

lemma validate_model_shape:
  assumes "validate L (TModel fs) v = Inr r"
  shows "\<exists>out. r = PModel out \<and> map fst out = map fst fs"
proof -
  from assms obtain kvs where v: "v = PDict kvs"
    by (cases v) simp_all
  let ?fvs = "map (map_prod id (map_prod (validate L) id)) fs"
  obtain es out where c: "collect_fields kvs ?fvs = (es, out)"
    by (cases "collect_fields kvs ?fvs") auto
  with assms v have "es = []" and r: "r = PModel out"
    by (auto split: if_splits)
  have "\<forall>(n, vld, dflt)\<in>set ?fvs. \<forall>x. vld x \<noteq> Inl []"
    by (auto simp: validate_errors_nonempty)
  with collect_fields_names [of kvs ?fvs out] c \<open>es = []\<close> have "map fst out = map fst ?fvs"
    by simp
  with r show ?thesis
    by (simp add: comp_def)
qed

text \<open>A mapping that lacks a required field fails validation, and the error names the
  field.\<close>

lemma collect_fields_missing:
  "collect_fields kvs fvs = (es, out) \<Longrightarrow> (n, vld, None) \<in> set fvs \<Longrightarrow> map_of kvs n = None \<Longrightarrow>
     ([Key n], Missing) \<in> set es"
proof (induction fvs arbitrary: es out)
  case Nil
  then show ?case by simp
next
  case (Cons f fvs)
  obtain n' vld' dflt' where f: "f = (n', vld', dflt')"
    by (cases f) auto
  obtain es' out' where rest: "collect_fields kvs fvs = (es', out')"
    by (cases "collect_fields kvs fvs") auto
  show ?case
  proof (cases "(n, vld, None) = f")
    case True
    with Cons.prems f rest show ?thesis by auto
  next
    case False
    with Cons.prems have "(n, vld, None) \<in> set fvs" by auto
    from Cons.IH [OF rest this Cons.prems(3)] have "([Key n], Missing) \<in> set es'" .
    with Cons.prems(1) f rest show ?thesis
      by (auto split: option.splits sum.splits)
  qed
qed

lemma missing_required_field_fails:
  assumes "(n, t, None) \<in> set fs" and "map_of kvs n = None"
  shows "\<exists>es. validate L (TModel fs) (PDict kvs) = Inl es \<and> ([Key n], Missing) \<in> set es"
proof -
  let ?fvs = "map (map_prod id (map_prod (validate L) id)) fs"
  obtain es out where c: "collect_fields kvs ?fvs = (es, out)"
    by (cases "collect_fields kvs ?fvs") auto
  from assms(1) have "(n, validate L t, None) \<in> set ?fvs"
    by force
  from collect_fields_missing [OF c this assms(2)] have "([Key n], Missing) \<in> set es" .
  with c show ?thesis by auto
qed

lemma report_model_fields:
  "\<exists>fs. report_model k = TModel fs \<and> fs \<noteq> [] \<and> distinct (map fst fs) \<and>
     (\<forall>(n, t, dflt)\<in>set fs. dflt = None \<or> dflt = Some PNone)"
  by (cases k) (simp_all add: CTScanReport_def PETCTReport_def MammogramReport_def)

subsection \<open>The minimal CT-scan report\<close>

lemma parse_sample_date: "parse_date ''2024-01-15'' = Some (2024, 1, 15)"
  by (simp add: parse_date_def digit_of_def days_in_month_def)

lemma validate_minimal_ct: "validate L CTScanReport minimal_ct = Inr minimal_ct_report"
  by (simp add: CTScanReport_def minimal_ct_def minimal_ct_items_def minimal_ct_report_def
      minimal_ct_fields_def scalar_def coerce_def parse_sample_date)

lemma acceptable_minimal_ct: "acceptable L CTScanReport minimal_ct"
  by (simp add: CTScanReport_def minimal_ct_def minimal_ct_items_def coerce_def
      parse_sample_date)

lemma dump_minimal_ct: "model_dump minimal_ct_report = PDict minimal_ct_fields"
  by (simp add: minimal_ct_report_def minimal_ct_fields_def)

lemma date_of_minimal_ct:
  "item (PDict minimal_ct_fields) ''date_of_test'' = Some (PDate 2024 1 15)"
  by (simp add: item_def minimal_ct_fields_def)

lemma json_date_of_minimal_ct:
  "item (jsonable_encoder (PDict minimal_ct_fields)) ''date_of_test'' =
     Some (PStr ''2024-01-15'')"
  by code_simp

lemma minimal_ct_response:
  assumes "extracted CTScan E file s = (Inr (path, minimal_ct), tp, s1)"
  shows "\<exists>r s'. process_report CTScan E file s = (Inr r, s') \<and> success r \<and>
           data r = Some minimal_ct_fields"
proof -
  have t: "truthy minimal_ct"
    by (simp add: minimal_ct_def minimal_ct_items_def)
  have c: "construct (lax_conversion E) (report_model CTScan) minimal_ct = Inr minimal_ct_report"
    using validate_minimal_ct [of "lax_conversion E"] by (simp add: construct_def minimal_ct_def)
  from assms t c show ?thesis
    by (simp add: process_report_def try_block_def validate_or_passthrough_def Response_def
        dump_minimal_ct Let_def)
qed

lemma sample_run_extracted:
  "extracted CTScan sample_env sample_upload sample_state =
     (Inr (''/tmp/tmpab12.pdf'', minimal_ct), Some ''/tmp/tmpab12.pdf'',
      snd (snd (extracted CTScan sample_env sample_upload sample_state)))"
  by (simp add: sample_defs run_defs)

section \<open>The response of a report endpoint\<close>

text \<open>
  Claim C1. For every report kind: when the extraction yields a non-empty mapping and the
  construction of the typed report from it fails, the endpoint logs a warning that
  carries the validation error and returns a response with \<^verbatim>\<open>success\<close> true whose
  data are the extracted mapping itself. The request does not end with status 500, and
  the data are not dropped.
\<close>

theorem validation_failure_passthrough:
  assumes "extracted k E file s = (Inr (path, PDict d), tp, s1)" and "d \<noteq> []"
    and "construct (lax_conversion E) (report_model k) (PDict d) = Inl err"
  shows "\<exists>r s'. endpoint k E file s = (Inr r, s') \<and> success r \<and> data r = Some d \<and>
           (WARNING, Validation_warning k err) \<in> set (logged s')"
  using assms
  by (simp add: endpoint_eq process_report_def try_block_def validate_or_passthrough_def
      Response_def logging_def add_task_def Let_def)

text \<open>A mammogram extraction with three fields: five required fields are missing, among
  them the BI-RADS score.\<close>

theorem validation_failure_passthrough_witness:
  "partial_mammogram \<noteq> []
   \<and> construct strict MammogramReport (PDict partial_mammogram) =
        Inl (ValidationError
               [([Key ''reason_for_test''], Missing),
                ([Key ''breast_composition''], Missing),
                ([Key ''birads_score''], Missing),
                ([Key ''birads_composition_comments''], Missing),
                ([Key ''hospital_name''], Missing)])
   \<and> (\<exists>r s'. endpoint Mammogram partial_env sample_upload sample_state = (Inr r, s') \<and>
         success r \<and> data r = Some partial_mammogram \<and>
         (WARNING,
          Validation_warning Mammogram
            (ValidationError
               [([Key ''reason_for_test''], Missing),
                ([Key ''breast_composition''], Missing),
                ([Key ''birads_score''], Missing),
                ([Key ''birads_composition_comments''], Missing),
                ([Key ''hospital_name''], Missing)])) \<in> set (logged s'))"
proof -
  have h1: "extracted Mammogram partial_env sample_upload sample_state =
      (Inr (''/tmp/tmpab12.pdf'', PDict partial_mammogram), Some ''/tmp/tmpab12.pdf'',
       snd (snd (extracted Mammogram partial_env sample_upload sample_state)))"
    by (simp add: sample_defs run_defs)
  have h2: "partial_mammogram \<noteq> []"
    by (simp add: partial_mammogram_def)
  have c: "construct strict MammogramReport (PDict partial_mammogram) =
      Inl (ValidationError
             [([Key ''reason_for_test''], Missing),
              ([Key ''breast_composition''], Missing),
              ([Key ''birads_score''], Missing),
              ([Key ''birads_composition_comments''], Missing),
              ([Key ''hospital_name''], Missing)])"
    by (simp add: construct_def MammogramReport_def partial_mammogram_def scalar_def
        coerce_def parse_sample_date)
  then have h3: "construct (lax_conversion partial_env) (report_model Mammogram)
      (PDict partial_mammogram) =
      Inl (ValidationError
             [([Key ''reason_for_test''], Missing),
              ([Key ''breast_composition''], Missing),
              ([Key ''birads_score''], Missing),
              ([Key ''birads_composition_comments''], Missing),
              ([Key ''hospital_name''], Missing)])"
    by (simp add: sample_defs)
  from h2 c validation_failure_passthrough [OF h1 h2 h3] show ?thesis
    by blast
qed

text \<open>
  Claim C7. When the extraction yields the minimal CT-scan mapping, the CT-scan endpoint
  returns a response with \<^verbatim>\<open>success\<close> true; in its data \<^verbatim>\<open>date_of_test\<close> is the
  date 15 January 2024, which the JSON body of the response writes as
  \<^verbatim>\<open>2024-01-15\<close>.
\<close>

theorem minimal_ct_scan_accepted:
  assumes "extracted CTScan E file s = (Inr (path, minimal_ct), tp, s1)"
  shows "\<exists>r s' d.
           process_ctscan_report E file s = (Inr r, s') \<and> success r \<and> data r = Some d \<and>
           item (PDict d) ''date_of_test'' = Some (PDate 2024 1 15) \<and>
           item (jsonable_encoder (PDict d)) ''date_of_test'' = Some (PStr ''2024-01-15'')"
proof -
  from minimal_ct_response [OF assms]
  have "\<exists>r s'. process_ctscan_report E file s = (Inr r, s') \<and> success r \<and>
      data r = Some minimal_ct_fields"
    by (simp add: process_ctscan_report_def)
  with date_of_minimal_ct json_date_of_minimal_ct show ?thesis
    by blast
qed

text \<open>The run in which every external call succeeds.\<close>

theorem minimal_ct_scan_accepted_witness:
  "\<exists>r s' d.
     process_ctscan_report sample_env sample_upload sample_state = (Inr r, s') \<and>
     success r \<and> data r = Some d \<and>
     item (PDict d) ''date_of_test'' = Some (PDate 2024 1 15) \<and>
     item (jsonable_encoder (PDict d)) ''date_of_test'' = Some (PStr ''2024-01-15'')"
  by (rule minimal_ct_scan_accepted [OF sample_run_extracted])

subsection \<open>Every outcome of a request\<close>

lemma saved_http:
  "saved k E file s = (Inl (Http (HTTPException c d)), tp, s1) \<Longrightarrow> c = 400"
  by (auto simp: saved_def Let_def split: if_splits sum.splits option.splits)

lemma converted_http:
  "converted k E file s = (Inl (Http (HTTPException c d)), tp, s1) \<Longrightarrow> c = 400"
  by (auto simp: converted_def Let_def split: prod.splits sum.splits dest: saved_http)

lemma extracted_http:
  "extracted k E file s = (Inl (Http (HTTPException c d)), tp, s1) \<Longrightarrow> c = 400"
  by (auto simp: extracted_def split: prod.splits sum.splits if_splits dest: converted_http)

lemma try_block_http:
  "try_block k E file s = (Inl (Http (HTTPException c d)), tp, s1) \<Longrightarrow> c = 400"
  by (auto simp: try_block_def Let_def split: prod.splits sum.splits if_splits
      dest: extracted_http)

lemma validated_data_nonempty:
  assumes "truthy sd" and "validate_or_passthrough k E sd s = (vd, s1)"
  shows "vd \<noteq> PNone \<and> vd \<noteq> PDict []"
proof (cases "construct (lax_conversion E) (report_model k) sd")
  case (Inl e)
  with assms show ?thesis
    by (auto simp: validate_or_passthrough_def)
next
  case (Inr report)
  then have v: "validate (lax_conversion E) (report_model k) sd = Inr report"
    by (auto simp: construct_def split: pyval.splits sum.splits)
  from report_model_fields [of k] obtain fs where fs: "report_model k = TModel fs" "fs \<noteq> []"
    by blast
  from v fs(1) validate_model_shape [of "lax_conversion E" fs sd report]
  obtain out where "report = PModel out" "map fst out = map fst fs"
    by auto
  with fs(2) Inr assms(2) show ?thesis
    by (auto simp: validate_or_passthrough_def)
qed

lemma try_block_response:
  assumes "try_block k E file s = (Inr r, tp, s1)"
  shows "success r \<and> (\<exists>d. data r = Some d \<and> d \<noteq> []) \<and> processing_time r \<noteq> None"
proof -
  from assms obtain path sd s0 where e: "extracted k E file s = (Inr (path, sd), tp, s0)"
    and t: "truthy sd"
    by (auto simp: try_block_def Let_def split: prod.splits sum.splits if_splits)
  obtain vd s2 where v: "validate_or_passthrough k E sd s0 = (vd, s2)"
    by (cases "validate_or_passthrough k E sd s0") auto
  from assms e t v have r: "Response True
      (''Successfully processed '' @ label k @ '' report: '' @ filename_text file) vd
      (float_sub E (time_end E) (time_start E)) = Inr r"
    by (auto simp: try_block_def Let_def split: sum.splits)
  from validated_data_nonempty [OF t v] have "vd \<noteq> PNone" "vd \<noteq> PDict []"
    by simp_all
  with r show ?thesis
    by (cases vd) (auto simp: Response_def)
qed

text \<open>
  Claim C10. Whatever the request and the environment, an endpoint either returns a
  response, and then \<^verbatim>\<open>success\<close> is true, the data are a non-empty mapping and the
  processing time is present, or it raises an \<^verbatim>\<open>HTTPException\<close> with status 400 or
  500. No returned response has \<^verbatim>\<open>success\<close> false.
\<close>

theorem envelope_always_successful:
  "case endpoint k E file s of
     (Inr r, s') \<Rightarrow>
       success r \<and> (\<exists>d. data r = Some d \<and> d \<noteq> []) \<and> processing_time r \<noteq> None
   | (Inl (HTTPException code detail), s') \<Rightarrow> code = 400 \<or> code = 500"
proof -
  obtain res tp s1 where t: "try_block k E file s = (res, tp, s1)"
    by (cases "try_block k E file s") auto
  show ?thesis
  proof (cases res)
    case (Inr r)
    with t try_block_response [of k E "file" s r tp s1] show ?thesis
      by (simp add: endpoint_eq process_report_def)
  next
    case (Inl x)
    show ?thesis
    proof (cases x)
      case (Http h)
      obtain c d where h: "h = HTTPException c d"
        by (cases h) auto
      with Inl Http t try_block_http [of k E "file" s c d tp s1] show ?thesis
        by (simp add: endpoint_eq process_report_def)
    next
      case (Other e)
      with Inl t show ?thesis
        by (simp add: endpoint_eq process_report_def Let_def)
    qed
  qed
qed

text \<open>A request that succeeds, one that is refused for its file name, and one whose
  conversion fails.\<close>

theorem envelope_always_successful_witness:
  "(\<exists>r s' d. endpoint CTScan sample_env sample_upload sample_state = (Inr r, s') \<and>
      success r \<and> data r = Some d \<and> d \<noteq> [] \<and> processing_time r \<noteq> None)
   \<and> (\<exists>detail s'. endpoint CTScan sample_env docx_upload sample_state =
         (Inl (HTTPException 400 detail), s'))
   \<and> (\<exists>detail s'. endpoint CTScan failing_env sample_upload sample_state =
         (Inl (HTTPException 500 detail), s'))"
proof -
  from minimal_ct_response [OF sample_run_extracted]
  obtain r s' where run: "endpoint CTScan sample_env sample_upload sample_state = (Inr r, s')"
    by (auto simp: endpoint_eq)
  with envelope_always_successful [of CTScan sample_env sample_upload sample_state]
  have a: "\<exists>r s' d. endpoint CTScan sample_env sample_upload sample_state = (Inr r, s') \<and>
      success r \<and> data r = Some d \<and> d \<noteq> [] \<and> processing_time r \<noteq> None"
    by auto
  have b: "\<exists>detail s'. endpoint CTScan sample_env docx_upload sample_state =
      (Inl (HTTPException 400 detail), s')"
    by (simp add: sample_defs run_defs)
  have c: "\<exists>detail s'. endpoint CTScan failing_env sample_upload sample_state =
      (Inl (HTTPException 500 detail), s')"
    by (simp add: sample_defs run_defs)
  from a b c show ?thesis by blast
qed

section \<open>The round trip through a typed report\<close>

subsection \<open>An acceptable value validates to the expected dump\<close>

lemma collect_items_all_valid:
  assumes "\<forall>x\<in>set xs. \<exists>y. f x = Inr y \<and> g y = h x"
  shows "\<exists>vs. collect_items i (map f xs) = ([], vs) \<and> map g vs = map h xs"
  using assms
proof (induction xs arbitrary: i)
  case Nil
  then show ?case by simp
next
  case (Cons x xs)
  from Cons.prems have "\<forall>x\<in>set xs. \<exists>y. f x = Inr y \<and> g y = h x"
    by simp
  from Cons.IH [OF this] obtain vs
    where vs: "collect_items (Suc i) (map f xs) = ([], vs)" "map g vs = map h xs"
    by blast
  from Cons.prems obtain y where y: "f x = Inr y" "g y = h x"
    by auto
  with vs show ?case by simp
qed

lemma collect_fields_all_valid:
  assumes "\<forall>(n, t, dflt)\<in>set fs.
             (case map_of kvs n of
                None \<Rightarrow> dflt \<noteq> None
              | Some x \<Rightarrow> \<exists>y. vld t x = Inr y \<and> model_dump y = dump t x)"
  shows "\<exists>out. collect_fields kvs (map (map_prod id (map_prod vld id)) fs) = ([], out) \<and>
           map (map_prod id model_dump) out =
             map (\<lambda>(n, dump, dflt).
                    (n, case map_of kvs n of
                          None \<Rightarrow> (case dflt of None \<Rightarrow> PNone | Some d \<Rightarrow> model_dump d)
                        | Some x \<Rightarrow> dump x))
               (map (map_prod id (map_prod dump id)) fs)"
  using assms
proof (induction fs)
  case Nil
  then show ?case by simp
next
  case (Cons f fs)
  obtain n t dflt where f: "f = (n, t, dflt)"
    by (cases f) auto
  from Cons.prems have rest: "\<forall>(n, t, dflt)\<in>set fs.
             (case map_of kvs n of
                None \<Rightarrow> dflt \<noteq> None
              | Some x \<Rightarrow> \<exists>y. vld t x = Inr y \<and> model_dump y = dump t x)"
    by simp
  from Cons.IH [OF rest] obtain out where out:
    "collect_fields kvs (map (map_prod id (map_prod vld id)) fs) = ([], out)"
    "map (map_prod id model_dump) out =
       map (\<lambda>(n, dump, dflt).
              (n, case map_of kvs n of
                    None \<Rightarrow> (case dflt of None \<Rightarrow> PNone | Some d \<Rightarrow> model_dump d)
                  | Some x \<Rightarrow> dump x))
         (map (map_prod id (map_prod dump id)) fs)"
    by blast
  show ?case
  proof (cases "map_of kvs n")
    case None
    with Cons.prems f obtain d where "dflt = Some d" by auto
    with None f out show ?thesis by (simp add: id_def)
  next
    case (Some x)
    with Cons.prems f obtain y where "vld t x = Inr y" "model_dump y = dump t x" by auto
    with Some f out show ?thesis by (simp add: id_def)
  qed
qed

lemma validate_acceptable:
  "acceptable L t v \<Longrightarrow> \<exists>y. validate L t v = Inr y \<and> model_dump y = expected_dump L t v"
proof (induction t arbitrary: v)
  case TStr
  then show ?case by (auto simp: scalar_def dest: coerce_dump)
next
  case TBool
  then show ?case by (auto simp: scalar_def dest: coerce_dump)
next
  case TInt
  then show ?case by (auto simp: scalar_def dest: coerce_dump)
next
  case TFloat
  then show ?case by (auto simp: scalar_def dest: coerce_dump)
next
  case TDate
  then show ?case by (auto simp: scalar_def dest: coerce_dump)
next
  case (TOptional t)
  then show ?case by (cases "v = PNone") simp_all
next
  case (TList t)
  from TList.prems obtain xs where v: "v = PList xs" and xs: "list_all (acceptable L t) xs"
    by (cases v) simp_all
  from xs TList.IH
  have "\<forall>x\<in>set xs. \<exists>y. validate L t x = Inr y \<and> model_dump y = expected_dump L t x"
    by (simp add: list_all_iff)
  from collect_items_all_valid [OF this, of 0] v show ?case
    by auto
next
  case (TModel fs)
  from TModel.prems obtain kvs where v: "v = PDict kvs"
    and wt: "list_all
                (\<lambda>(n, ok, dflt). case map_of kvs n of None \<Rightarrow> dflt \<noteq> None | Some x \<Rightarrow> ok x)
                (map (map_prod id (map_prod (acceptable L) id)) fs)"
    by (cases v) simp_all
  have "\<forall>(n, t, dflt)\<in>set fs.
          (case map_of kvs n of
             None \<Rightarrow> dflt \<noteq> None
           | Some x \<Rightarrow> \<exists>y. validate L t x = Inr y \<and> model_dump y = expected_dump L t x)"
  proof (clarify)
    fix n t dflt
    assume mem: "(n, t, dflt) \<in> set fs"
    with wt have *: "case map_of kvs n of None \<Rightarrow> dflt \<noteq> None | Some x \<Rightarrow> acceptable L t x"
      by (force simp: list_all_iff)
    show "case map_of kvs n of
            None \<Rightarrow> dflt \<noteq> None
          | Some x \<Rightarrow> \<exists>y. validate L t x = Inr y \<and> model_dump y = expected_dump L t x"
    proof (cases "map_of kvs n")
      case None
      with * show ?thesis by simp
    next
      case (Some x)
      with * have "acceptable L t x" by simp
      from TModel.IH [OF mem _ _ this, of "(t, dflt)"] Some show ?thesis by simp
    qed
  qed
  from collect_fields_all_valid [OF this] v show ?case
    by auto
qed

lemma declared_type_unchanged: "has_declared_type t v \<Longrightarrow> expected_dump L t v = v"
  by (induction t v rule: has_declared_type.induct) (auto simp: coerce_def)

lemma map_of_fields:
  "distinct (map fst fs) \<Longrightarrow> (n, t, d) \<in> set fs \<Longrightarrow>
     map_of (map (\<lambda>(n, t, d). (n, g n t d)) fs) n = Some (g n t d)"
  by (induction fs) (auto simp: rev_image_eqI)

lemma expected_dump_defaulted:
  assumes "distinct (map fst fs)"
    and "\<forall>(n, t, dflt)\<in>set fs. dflt = None \<or> dflt = Some PNone"
    and "acceptable L (TModel fs) (PDict kvs)"
  shows "defaulted_roundtrip L (TModel fs) (PDict kvs) (expected_dump L (TModel fs) (PDict kvs))"
proof -
  let ?g = "\<lambda>n t dflt. case map_of kvs n of
                None \<Rightarrow> (case dflt of None \<Rightarrow> PNone | Some d \<Rightarrow> model_dump d)
              | Some x \<Rightarrow> expected_dump L t x"
  have out: "expected_dump L (TModel fs) (PDict kvs) =
      PDict (map (\<lambda>(n, t, d). (n, ?g n t d)) fs)"
    by (auto simp: comp_def)
  have names: "map fst (map (\<lambda>(n, t, d). (n, ?g n t d)) fs) = map fst fs"
    by (simp add: comp_def case_prod_unfold)
  have look: "map_of (map (\<lambda>(n, t, d). (n, ?g n t d)) fs) n =
          Some (case map_of kvs n of None \<Rightarrow> PNone | Some v \<Rightarrow> expected_dump L t v)"
    if mem: "(n, t, dflt) \<in> set fs" for n t dflt
  proof -
    from assms(2) mem have "dflt = None \<or> dflt = Some PNone" by auto
    then have "?g n t dflt =
        (case map_of kvs n of None \<Rightarrow> PNone | Some v \<Rightarrow> expected_dump L t v)"
      by (auto split: option.splits)
    with map_of_fields [OF assms(1) mem, of ?g] show ?thesis by simp
  qed
  have same: "map_of (map (\<lambda>(n, t, d). (n, ?g n t d)) fs) n = Some v"
    if "(n, t, dflt) \<in> set fs" and "map_of kvs n = Some v" and "has_declared_type t v"
    for n t dflt v
    using look [OF that(1)] that(2) declared_type_unchanged [OF that(3), of L] by simp
  show ?thesis
    unfolding out using names look same by (auto simp: defaulted_roundtrip_def)
qed

lemma unchanged_roundtrip_keys:
  "unchanged_roundtrip L cls input output \<Longrightarrow> keys_of output \<subseteq> keys_of input"
  by (auto simp: unchanged_roundtrip_def split: ftype.splits pyval.splits)

subsection \<open>No other value validates\<close>

text \<open>The condition cannot be weakened: a value that validates is acceptable.\<close>

lemma collect_items_valid:
  "collect_items i rs = ([], vs) \<Longrightarrow> \<forall>r\<in>set rs. r \<noteq> Inl [] \<Longrightarrow> \<forall>r\<in>set rs. \<exists>y. r = Inr y"
proof (induction rs arbitrary: i vs)
  case Nil
  then show ?case by simp
next
  case (Cons r rs)
  obtain es' vs' where rest: "collect_items (Suc i) rs = (es', vs')"
    by (cases "collect_items (Suc i) rs") auto
  from Cons.prems have ne: "r \<noteq> Inl []" by simp
  from Cons.prems(1) rest ne have "es' = []" and r: "\<exists>y. r = Inr y"
    by (cases r; auto)+
  with Cons.IH [of "Suc i" vs'] rest Cons.prems(2) r show ?case by simp
qed

lemma collect_fields_valid:
  "collect_fields kvs fvs = ([], out) \<Longrightarrow> \<forall>(n, vld, dflt)\<in>set fvs. \<forall>x. vld x \<noteq> Inl [] \<Longrightarrow>
     \<forall>(n, vld, dflt)\<in>set fvs.
        (case map_of kvs n of None \<Rightarrow> dflt \<noteq> None | Some x \<Rightarrow> \<exists>y. vld x = Inr y)"
proof (induction fvs arbitrary: out)
  case Nil
  then show ?case by simp
next
  case (Cons f fvs)
  obtain n vld dflt where f: "f = (n, vld, dflt)"
    by (cases f) auto
  obtain es out' where rest: "collect_fields kvs fvs = (es, out')"
    by (cases "collect_fields kvs fvs") auto
  from Cons.prems(2) f have ne: "\<And>x. vld x \<noteq> Inl []"
    by simp
  from Cons.prems(1) f rest ne have es: "es = []"
    and here: "case map_of kvs n of None \<Rightarrow> dflt \<noteq> None | Some x \<Rightarrow> \<exists>y. vld x = Inr y"
    by (auto split: option.splits sum.splits)
  from Cons.IH [of out'] rest es Cons.prems(2)
  have "\<forall>(n, vld, dflt)\<in>set fvs.
        (case map_of kvs n of None \<Rightarrow> dflt \<noteq> None | Some x \<Rightarrow> \<exists>y. vld x = Inr y)"
    by simp
  with here f show ?case by simp
qed

lemma validate_only_acceptable:
  "validate L t v = Inr y \<Longrightarrow> acceptable L t v"
proof (induction t arbitrary: v y)
  case (TOptional t)
  then show ?case by (cases "v = PNone") auto
next
  case (TList t)
  from TList.prems obtain xs where v: "v = PList xs"
    by (cases v) simp_all
  obtain es vs where c: "collect_items 0 (map (validate L t) xs) = (es, vs)"
    by (cases "collect_items 0 (map (validate L t) xs)") auto
  with TList.prems v have "es = []"
    by (auto split: if_splits)
  with c collect_items_valid [of 0 "map (validate L t) xs" vs]
  have "\<forall>x\<in>set xs. \<exists>y. validate L t x = Inr y"
    by (auto simp: validate_errors_nonempty)
  with TList.IH v show ?case
    by (auto simp: list_all_iff)
next
  case (TModel fs)
  from TModel.prems obtain kvs where v: "v = PDict kvs"
    by (cases v) simp_all
  let ?fvs = "map (map_prod id (map_prod (validate L) id)) fs"
  obtain es out where c: "collect_fields kvs ?fvs = (es, out)"
    by (cases "collect_fields kvs ?fvs") auto
  with TModel.prems v have "es = []"
    by (auto split: if_splits)
  moreover have "\<forall>(n, vld, dflt)\<in>set ?fvs. \<forall>x. vld x \<noteq> Inl []"
    by (auto simp: validate_errors_nonempty)
  ultimately have all: "\<forall>(n, vld, dflt)\<in>set ?fvs.
        (case map_of kvs n of None \<Rightarrow> dflt \<noteq> None | Some x \<Rightarrow> \<exists>y. vld x = Inr y)"
    using collect_fields_valid [of kvs ?fvs out] c by simp
  have "case map_of kvs n of None \<Rightarrow> dflt \<noteq> None | Some x \<Rightarrow> acceptable L t x"
    if mem: "(n, t, dflt) \<in> set fs" for n t dflt
  proof -
    from mem have "(n, validate L t, dflt) \<in> set ?fvs" by force
    with all have *: "case map_of kvs n of None \<Rightarrow> dflt \<noteq> None
        | Some x \<Rightarrow> \<exists>y. validate L t x = Inr y"
      by fastforce
    show ?thesis
    proof (cases "map_of kvs n")
      case None
      with * show ?thesis by simp
    next
      case (Some x)
      with * obtain y where "validate L t x = Inr y" by auto
      from TModel.IH [OF mem _ _ this, of "(t, dflt)"] Some show ?thesis by simp
    qed
  qed
  with v show ?case
    by (auto simp: list_all_iff)
qed (auto simp: scalar_def split: option.splits)

lemma construct_only_acceptable:
  "construct L cls (PDict kvs) = Inr report \<Longrightarrow> acceptable L cls (PDict kvs)"
  by (auto simp: construct_def split: sum.splits dest: validate_only_acceptable)

text \<open>A coercion at work: the string \<^verbatim>\<open>3\<close> comes back as the integer.\<close>

lemma numeric_string_coerced:
  "\<exists>report. construct numeric_strings CTScanReport (PDict three_nodes_items) = Inr report \<and>
     item (model_dump report) ''lymph_nodes_detected'' = Some (PInt 3)"
  by (simp add: construct_def CTScanReport_def three_nodes_items_def minimal_ct_items_def
      scalar_def coerce_def numeric_strings_def parse_sample_date item_def)

subsection \<open>The claim and its amendment\<close>

text \<open>
  Claim C8 as stated does not hold, on two counts. The minimal CT-scan mapping supplies
  every required field with a value of the declared type, and the dump of its report is
  not the input with coercions applied and unknown fields removed: it has the key
  \<^verbatim>\<open>lymph_nodes_detected\<close>, which the input does not have. And the same mapping with
  \<^verbatim>\<open>lymph_nodes_detected\<close> set to the string \<^verbatim>\<open>many\<close> still supplies every required
  field with a value of the declared type, yet no report is constructed from it, so
  there is nothing to dump. (No conversion of the library applies to either input; they
  are run without the lax conversions.)
\<close>

theorem roundtrip_adds_absent_fields:
  "supplies_required strict CTScanReport minimal_ct
   \<and> construct strict CTScanReport minimal_ct = Inr minimal_ct_report
   \<and> ''lymph_nodes_detected'' \<in> keys_of (model_dump minimal_ct_report)
   \<and> ''lymph_nodes_detected'' \<notin> keys_of minimal_ct
   \<and> \<not> unchanged_roundtrip strict CTScanReport minimal_ct (model_dump minimal_ct_report)
   \<and> supplies_required strict CTScanReport many_nodes_ct
   \<and> construct strict CTScanReport many_nodes_ct =
        Inl (ValidationError [([Key ''lymph_nodes_detected''], Invalid)])"
proof -
  have a: "supplies_required strict CTScanReport minimal_ct"
    by (simp add: supplies_required_def CTScanReport_def minimal_ct_def minimal_ct_items_def
        coerce_def parse_sample_date)
  have c: "construct strict CTScanReport minimal_ct = Inr minimal_ct_report"
    using validate_minimal_ct [of strict] by (simp add: construct_def minimal_ct_def)
  have i: "''lymph_nodes_detected'' \<in> keys_of (model_dump minimal_ct_report)"
    by (simp add: keys_of_def minimal_ct_report_def minimal_ct_fields_def)
  have n: "''lymph_nodes_detected'' \<notin> keys_of minimal_ct"
    by (simp add: keys_of_def minimal_ct_def minimal_ct_items_def)
  from i n
    unchanged_roundtrip_keys [of strict CTScanReport minimal_ct "model_dump minimal_ct_report"]
  have u: "\<not> unchanged_roundtrip strict CTScanReport minimal_ct (model_dump minimal_ct_report)"
    by blast
  have a': "supplies_required strict CTScanReport many_nodes_ct"
    by (simp add: supplies_required_def CTScanReport_def many_nodes_ct_def
        minimal_ct_items_def coerce_def parse_sample_date)
  have c': "construct strict CTScanReport many_nodes_ct =
      Inl (ValidationError [([Key ''lymph_nodes_detected''], Invalid)])"
    by (simp add: construct_def CTScanReport_def many_nodes_ct_def minimal_ct_items_def
        scalar_def coerce_def strict_def under_def parse_sample_date)
  from a c i n u a' c' show ?thesis by simp
qed

text \<open>
  Claim C8, amended. For each of the three report kinds and every mapping in which every
  required field is supplied and every field of the schema that is supplied has a value
  of the declared type, or one that the schema's coercion converts to it (\<^verbatim>\<open>None\<close>
  also, for an optional field), the typed report is constructed, and its dump has
  exactly the fields of the schema, in their order: a field that the input supplies
  carries the input's value, unchanged when it has the declared type and coerced
  otherwise (a numeric string to the number, a date string to the date, a nested mapping
  treated in the same way); a field that the input does not supply is \<^verbatim>\<open>None\<close>; and
  a key of the input that is not a field of the schema is dropped. This holds whatever
  the conversions of the library are.
\<close>

theorem typed_roundtrip:
  assumes "acceptable L (report_model k) (PDict kvs)"
  shows "\<exists>report. construct L (report_model k) (PDict kvs) = Inr report \<and>
           defaulted_roundtrip L (report_model k) (PDict kvs) (model_dump report)"
proof -
  from validate_acceptable [OF assms] obtain report
    where r: "validate L (report_model k) (PDict kvs) = Inr report"
      "model_dump report = expected_dump L (report_model k) (PDict kvs)"
    by blast
  from report_model_fields [of k] obtain fs
    where fs: "report_model k = TModel fs" "distinct (map fst fs)"
      "\<forall>(n, t, dflt)\<in>set fs. dflt = None \<or> dflt = Some PNone"
    by blast
  from expected_dump_defaulted [OF fs(2,3)] assms fs(1) r(2)
  have "defaulted_roundtrip L (report_model k) (PDict kvs) (model_dump report)"
    by simp
  with r(1) show ?thesis
    by (simp add: construct_def)
qed

text \<open>The minimal CT-scan mapping with \<^verbatim>\<open>lymph_nodes_detected\<close> given as the string
  \<^verbatim>\<open>3\<close>, under a library that converts that string to the integer.\<close>

theorem typed_roundtrip_witness:
  "acceptable numeric_strings (report_model CTScan) (PDict three_nodes_items)
   \<and> (\<exists>report.
         construct numeric_strings (report_model CTScan) (PDict three_nodes_items) =
           Inr report \<and>
         defaulted_roundtrip numeric_strings (report_model CTScan) (PDict three_nodes_items)
           (model_dump report))"
proof -
  have w: "acceptable numeric_strings (report_model CTScan) (PDict three_nodes_items)"
    by (simp add: CTScanReport_def three_nodes_items_def minimal_ct_items_def coerce_def
        numeric_strings_def parse_sample_date)
  from w typed_roundtrip [OF w] show ?thesis by blast
qed

end
